theory Spec2Isabelle
  imports Main
begin

section \<open>Documents and the store\<close>

text \<open>
  The two route files \<^verbatim>\<open>routes/users.js\<close> and \<^verbatim>\<open>routes/tasks.js\<close> work on two
  collections of a document store. A collection is the list of its documents in insertion
  order; the whole state of the service is the pair of collections.

  The id of a document is an object id of the store. The model holds it as its text,
  \<^verbatim>\<open>_id.toString()\<close>, the form in which the handlers write it into
  \<^verbatim>\<open>pendingTasks\<close> and \<^verbatim>\<open>assignedUser\<close>. A string that arrives in a request is
  not an id yet: the store casts it when it looks a document up by id (see \<open>findById\<close>),
  and several strings are cast to the same id.
\<close>

type_synonym oid = string

text \<open>
  Modelled from the spec: the schema files \<^verbatim>\<open>models/user.js\<close> and
  \<^verbatim>\<open>models/task.js\<close> are not part of the sources; the fields and their types are
  those of the data model (a User has an id, a name, an email and the list
  \<^verbatim>\<open>pendingTasks\<close> of task ids as strings).
\<close>

record user =
  u_id :: oid
  u_name :: string
  email :: string
  pendingTasks :: "string list"

text \<open>
  Modelled from the spec: a Task has an id, a name, a description, a deadline (a
  timestamp, here in milliseconds), the flag \<^verbatim>\<open>completed\<close>, and the two assignment
  fields \<^verbatim>\<open>assignedUser\<close> and \<^verbatim>\<open>assignedUserName\<close>, both strings.
\<close>

record task =
  t_id :: oid
  t_name :: string
  description :: string
  deadline :: int
  completed :: bool
  assignedUser :: string
  assignedUserName :: string

record db =
  users :: "user list"
  tasks :: "task list"

subsection \<open>Replies\<close>

text \<open>
  Every handler body is a \<^verbatim>\<open>try\<close> block whose \<^verbatim>\<open>catch\<close> answers with status 500
  and the message of the error. The only error the model raises is the store's cast
  error: looking a document up by a string that is not the text of an object id.
\<close>

datatype error = CastError

datatype 'a payload = Null | Doc (doc: 'a) | ErrMessage error

datatype 'a reply = Reply (status: nat) (message: string) (payload: "'a payload")

definition sendOK :: "'a \<Rightarrow> 'a reply" where
  "sendOK d = Reply 200 ''OK'' (Doc d)"

definition sendCreated :: "'a \<Rightarrow> 'a reply" where
  "sendCreated d = Reply 201 ''Created'' (Doc d)"

definition sendError :: "string \<Rightarrow> nat \<Rightarrow> 'a payload \<Rightarrow> 'a reply" where
  "sendError msg st d = Reply st msg d"

subsection \<open>Store operations\<close>

text \<open>
  \<^verbatim>\<open>updateOne\<close> and \<^verbatim>\<open>deleteOne\<close> touch the first document that matches, as the
  store's operations by id do.
\<close>

fun updateOne :: "('a \<Rightarrow> bool) \<Rightarrow> ('a \<Rightarrow> 'a) \<Rightarrow> 'a list \<Rightarrow> 'a list" where
  "updateOne p f [] = []"
| "updateOne p f (d # ds) = (if p d then f d # ds else d # updateOne p f ds)"

fun deleteOne :: "('a \<Rightarrow> bool) \<Rightarrow> 'a list \<Rightarrow> 'a list" where
  "deleteOne p [] = []"
| "deleteOne p (d # ds) = (if p d then ds else d # deleteOne p ds)"

text \<open>
  Two functions of the library are parameters of the handlers. \<open>isValid\<close> stands for
  \<^verbatim>\<open>mongoose.Types.ObjectId.isValid\<close> on strings, the test the handlers put on the id
  of the request. \<open>cast\<close> stands for the cast the store applies to the string of a
  lookup by id: \<open>None\<close> when the string is not the text of an object id, and the lookup
  is rejected; otherwise the text of the id the string denotes (the hexadecimal digits of
  a string may be of either case, the text of an id has them in lower case). The lookup
  compares ids, not strings.
\<close>

definition findById ::
  "(string \<Rightarrow> oid option) \<Rightarrow> ('a \<Rightarrow> oid) \<Rightarrow> string \<Rightarrow> 'a list \<Rightarrow> error + 'a option" where
  "findById cast ident i docs =
     (case cast i of
        None \<Rightarrow> Inl CastError
      | Some c \<Rightarrow> Inr (find (\<lambda>d. ident d = c) docs))"

definition findByIdAndUpdate ::
  "(string \<Rightarrow> oid option) \<Rightarrow> ('a \<Rightarrow> oid) \<Rightarrow> string \<Rightarrow> ('a \<Rightarrow> 'a) \<Rightarrow> 'a list
     \<Rightarrow> error + 'a list" where
  "findByIdAndUpdate cast ident i f docs =
     (case cast i of
        None \<Rightarrow> Inl CastError
      | Some c \<Rightarrow> Inr (updateOne (\<lambda>d. ident d = c) f docs))"

definition findByIdAndDelete ::
  "(string \<Rightarrow> oid option) \<Rightarrow> ('a \<Rightarrow> oid) \<Rightarrow> string \<Rightarrow> 'a list
     \<Rightarrow> error + ('a option \<times> 'a list)" where
  "findByIdAndDelete cast ident i docs =
     (case cast i of
        None \<Rightarrow> Inl CastError
      | Some c \<Rightarrow> Inr (find (\<lambda>d. ident d = c) docs, deleteOne (\<lambda>d. ident d = c) docs))"

text \<open>\<^verbatim>\<open>doc.save()\<close> writes the document back under its own id.\<close>

definition save_user :: "user \<Rightarrow> user list \<Rightarrow> user list" where
  "save_user u us = updateOne (\<lambda>d. u_id d = u_id u) (\<lambda>_. u) us"

definition save_task :: "task \<Rightarrow> task list \<Rightarrow> task list" where
  "save_task t ts = updateOne (\<lambda>d. t_id d = t_id t) (\<lambda>_. t) ts"

text \<open>
  The update operators \<^verbatim>\<open>$addToSet\<close> and \<^verbatim>\<open>$pull\<close> on \<^verbatim>\<open>pendingTasks\<close>, a list
  of strings: both compare the entries as strings.
\<close>

definition addToSet :: "string \<Rightarrow> user \<Rightarrow> user" where
  "addToSet x u =
     u\<lparr>pendingTasks := (if x \<in> set (pendingTasks u) then pendingTasks u
                          else pendingTasks u @ [x])\<rparr>"

definition pull :: "string \<Rightarrow> user \<Rightarrow> user" where
  "pull x u = u\<lparr>pendingTasks := filter (\<lambda>y. y \<noteq> x) (pendingTasks u)\<rparr>"

definition unassign :: "task \<Rightarrow> task" where
  "unassign t = t\<lparr>assignedUser := '''', assignedUserName := ''unassigned''\<rparr>"

text \<open>
  \<^verbatim>\<open>updateMany\<close> rewrites every document that matches the filter. The filter of the
  one call, \<^verbatim>\<open>{assignedUser: id}\<close>, is on a string field and compares strings.
\<close>

definition updateMany :: "('a \<Rightarrow> bool) \<Rightarrow> ('a \<Rightarrow> 'a) \<Rightarrow> 'a list \<Rightarrow> 'a list" where
  "updateMany p f docs = map (\<lambda>d. if p d then f d else d) docs"

subsection \<open>Request bodies\<close>

text \<open>
  A field of a request body is \<open>None\<close> when the body does not have it
  (\<^verbatim>\<open>undefined\<close>). A string is truthy when it is present and not empty.
\<close>

definition truthy :: "string option \<Rightarrow> bool" where
  "truthy s = (case s of None \<Rightarrow> False | Some v \<Rightarrow> v \<noteq> '''')"

definition orElse :: "string option \<Rightarrow> string \<Rightarrow> string" where
  "orElse s dflt = (if truthy s then the s else dflt)"

record user_body =
  ub_name :: "string option"
  ub_email :: "string option"
  ub_pendingTasks :: "string list option"

text \<open>
  The deadline of a body is the timestamp its text parses to; \<open>None\<close> is a deadline that
  is absent or, for a creation, one that \<^verbatim>\<open>Date.parse\<close> does not read (both are
  \<^verbatim>\<open>NaN\<close> to the handler).
\<close>

record task_body =
  tb_name :: "string option"
  tb_description :: "string option"
  tb_deadline :: "int option"
  tb_completed :: "bool option"
  tb_assignedUser :: "string option"
  tb_assignedUserName :: "string option"

section \<open>The user routes\<close>

subsection \<open>GET /api/users/:id\<close>

text \<open>The fetch of a user by id, for a request without a projection.\<close>

definition get_user ::
  "(string \<Rightarrow> bool) \<Rightarrow> (string \<Rightarrow> oid option) \<Rightarrow> string \<Rightarrow> db \<Rightarrow> user reply" where
  "get_user isValid cast i s =
     (if \<not> isValid i then sendError ''Invalid user id'' 400 Null
      else case findById cast u_id i (users s) of
             Inl e \<Rightarrow> sendError ''Error fetching user'' 500 (ErrMessage e)
           | Inr None \<Rightarrow> sendError ''User not found'' 404 Null
           | Inr (Some u) \<Rightarrow> sendOK u)"

subsection \<open>POST /api/users\<close>

text \<open>The id of the new document is given by the store: \<open>newId\<close>.\<close>

definition post_user :: "oid \<Rightarrow> user_body \<Rightarrow> db \<Rightarrow> user reply \<times> db" where
  "post_user newId body s =
     (if \<not> truthy (ub_name body) \<or> \<not> truthy (ub_email body)
      then (sendError ''Missing required fields: name and email'' 400 Null, s)
      else case find (\<lambda>u. email u = the (ub_email body)) (users s) of
             Some existing \<Rightarrow> (sendError ''Email already exists'' 400 Null, s)
           | None \<Rightarrow>
               (let u = \<lparr>u_id = newId, u_name = the (ub_name body),
                         email = the (ub_email body),
                         pendingTasks = (case ub_pendingTasks body of None \<Rightarrow> [] | Some p \<Rightarrow> p)\<rparr>
                in (sendCreated u, s\<lparr>users := users s @ [u]\<rparr>)))"

subsection \<open>PUT /api/users/:id\<close>

text \<open>
  The two loops of the synchronisation. Each returns the tasks as they are when the loop
  ends, with the error that ended it, if any: the writes made before a failing lookup
  stay. \<^verbatim>\<open>newTasks.includes(tid)\<close> compares strings; the lookups of the tasks cast
  the entries of the lists.
\<close>

fun unassign_removed ::
  "(string \<Rightarrow> oid option) \<Rightarrow> string list \<Rightarrow> string list \<Rightarrow> task list
     \<Rightarrow> error option \<times> task list" where
  "unassign_removed cast newTasks [] ts = (None, ts)"
| "unassign_removed cast newTasks (tid # rest) ts =
     (if tid \<notin> set newTasks
      then (case findByIdAndUpdate cast t_id tid unassign ts of
              Inl e \<Rightarrow> (Some e, ts)
            | Inr ts' \<Rightarrow> unassign_removed cast newTasks rest ts')
      else unassign_removed cast newTasks rest ts)"

fun assign_new ::
  "(string \<Rightarrow> oid option) \<Rightarrow> user \<Rightarrow> string list \<Rightarrow> task list
     \<Rightarrow> error option \<times> task list" where
  "assign_new cast u [] ts = (None, ts)"
| "assign_new cast u (tid # rest) ts =
     (case findById cast t_id tid ts of
        Inl e \<Rightarrow> (Some e, ts)
      | Inr None \<Rightarrow> assign_new cast u rest ts
      | Inr (Some t) \<Rightarrow>
          assign_new cast u rest
            (save_task (t\<lparr>assignedUser := u_id u, assignedUserName := u_name u\<rparr>) ts))"

definition sync_pendingTasks ::
  "(string \<Rightarrow> oid option) \<Rightarrow> user \<Rightarrow> string list \<Rightarrow> task list
     \<Rightarrow> error option \<times> task list" where
  "sync_pendingTasks cast u newTasks ts =
     (case unassign_removed cast newTasks (pendingTasks u) ts of
        (Some e, ts') \<Rightarrow> (Some e, ts')
      | (None, ts') \<Rightarrow> assign_new cast u newTasks ts')"

definition assign_user :: "user \<Rightarrow> user_body \<Rightarrow> user" where
  "assign_user u body =
     u\<lparr>u_name := (case ub_name body of None \<Rightarrow> u_name u | Some n \<Rightarrow> n),
       email := (case ub_email body of None \<Rightarrow> email u | Some e \<Rightarrow> e),
       pendingTasks := (case ub_pendingTasks body of None \<Rightarrow> pendingTasks u | Some p \<Rightarrow> p)\<rparr>"

definition put_user ::
  "(string \<Rightarrow> bool) \<Rightarrow> (string \<Rightarrow> oid option) \<Rightarrow> string \<Rightarrow> user_body \<Rightarrow> db
     \<Rightarrow> user reply \<times> db" where
  "put_user isValid cast i body s =
     (if \<not> isValid i then (sendError ''Invalid user id'' 400 Null, s)
      else case findById cast u_id i (users s) of
             Inl e \<Rightarrow> (sendError ''Error updating user'' 500 (ErrMessage e), s)
           | Inr None \<Rightarrow> (sendError ''User not found'' 404 Null, s)
           | Inr (Some u) \<Rightarrow>
               (case (case ub_pendingTasks body of
                        None \<Rightarrow> (None, tasks s)
                      | Some newTasks \<Rightarrow> sync_pendingTasks cast u newTasks (tasks s)) of
                  (Some e, ts) \<Rightarrow>
                    (sendError ''Error updating user'' 500 (ErrMessage e), s\<lparr>tasks := ts\<rparr>)
                | (None, ts) \<Rightarrow>
                    (let u' = assign_user u body
                     in (sendOK u', s\<lparr>users := save_user u' (users s), tasks := ts\<rparr>))))"

subsection \<open>DELETE /api/users/:id\<close>

text \<open>
  The user is looked up and deleted by the id the string of the request is cast to; the
  tasks are then filtered by that string itself, \<^verbatim>\<open>{assignedUser: id}\<close>.
\<close>

definition delete_user ::
  "(string \<Rightarrow> bool) \<Rightarrow> (string \<Rightarrow> oid option) \<Rightarrow> string \<Rightarrow> db \<Rightarrow> user reply \<times> db" where
  "delete_user isValid cast i s =
     (if \<not> isValid i then (sendError ''Invalid user id'' 400 Null, s)
      else case findByIdAndDelete cast u_id i (users s) of
             Inl e \<Rightarrow> (sendError ''Error deleting user'' 500 (ErrMessage e), s)
           | Inr (None, us) \<Rightarrow> (sendError ''User not found'' 404 Null, s)
           | Inr (Some u, us) \<Rightarrow>
               (sendOK u,
                s\<lparr>users := us,
                  tasks := updateMany (\<lambda>t. assignedUser t = i) unassign (tasks s)\<rparr>))"

section \<open>The task routes\<close>

subsection \<open>POST /api/tasks\<close>

text \<open>
  \<open>now\<close> is the clock at the time of the request and \<open>newId\<close> the id the store gives
  the new document. The test \<^verbatim>\<open>!validDeadline\<close> never holds (a \<^verbatim>\<open>Date\<close> is an
  object), so only a missing name is refused. The user is found by the string of the
  body, which the store casts; the write to the user goes by \<^verbatim>\<open>user._id\<close>, an id,
  with no cast.
\<close>

definition taskData :: "int \<Rightarrow> oid \<Rightarrow> task_body \<Rightarrow> task" where
  "taskData now newId body =
     \<lparr>t_id = newId,
      t_name = the (tb_name body),
      description = orElse (tb_description body) '''',
      deadline = (case tb_deadline body of None \<Rightarrow> now | Some d \<Rightarrow> d),
      completed = (tb_completed body = Some True),
      assignedUser = orElse (tb_assignedUser body) '''',
      assignedUserName =
        orElse (tb_assignedUserName body)
          (if truthy (tb_assignedUser body) then ''unknown'' else ''unassigned'')\<rparr>"

definition post_task ::
  "(string \<Rightarrow> oid option) \<Rightarrow> int \<Rightarrow> oid \<Rightarrow> task_body \<Rightarrow> db \<Rightarrow> task reply \<times> db" where
  "post_task cast now newId body s =
     (if \<not> truthy (tb_name body)
      then (sendError ''Missing required fields: name and deadline'' 400 Null, s)
      else
        (let t = taskData now newId body;
             s1 = s\<lparr>tasks := tasks s @ [t]\<rparr>
         in if truthy (tb_assignedUser body)
            then (case findById cast u_id (the (tb_assignedUser body)) (users s1) of
                    Inl e \<Rightarrow> (sendError ''Error creating task'' 500 (ErrMessage e), s1)
                  | Inr None \<Rightarrow> (sendCreated t, s1)
                  | Inr (Some u) \<Rightarrow>
                      (let t' = t\<lparr>assignedUserName := u_name u\<rparr>;
                           s2 = s1\<lparr>tasks := save_task t' (tasks s1)\<rparr>
                       in (sendCreated t',
                           s2\<lparr>users := updateOne (\<lambda>d. u_id d = u_id u) (addToSet (t_id t'))
                                          (users s2)\<rparr>)))
            else (sendCreated t, s1)))"

subsection \<open>PUT /api/tasks/:id\<close>

definition assign_task :: "task \<Rightarrow> task_body \<Rightarrow> task" where
  "assign_task t body =
     t\<lparr>t_name := (case tb_name body of None \<Rightarrow> t_name t | Some n \<Rightarrow> n),
       description := (case tb_description body of None \<Rightarrow> description t | Some d \<Rightarrow> d),
       deadline := (case tb_deadline body of None \<Rightarrow> deadline t | Some d \<Rightarrow> d),
       completed := (case tb_completed body of None \<Rightarrow> completed t | Some c \<Rightarrow> c),
       assignedUser := (case tb_assignedUser body of None \<Rightarrow> assignedUser t | Some a \<Rightarrow> a),
       assignedUserName :=
         (case tb_assignedUserName body of None \<Rightarrow> assignedUserName t | Some n \<Rightarrow> n)\<rparr>"

text \<open>
  \<^verbatim>\<open>prevUser !== newUser\<close> compares the two strings; the writes to the users go by
  the ids the strings are cast to.
\<close>

definition put_task ::
  "(string \<Rightarrow> bool) \<Rightarrow> (string \<Rightarrow> oid option) \<Rightarrow> string \<Rightarrow> task_body \<Rightarrow> db
     \<Rightarrow> task reply \<times> db" where
  "put_task isValid cast i body s =
     (if \<not> isValid i then (sendError ''Invalid task id'' 400 Null, s)
      else case findById cast t_id i (tasks s) of
             Inl e \<Rightarrow> (sendError ''Error updating task'' 500 (ErrMessage e), s)
           | Inr None \<Rightarrow> (sendError ''Task not found'' 404 Null, s)
           | Inr (Some t0) \<Rightarrow>
               (let prevUser = assignedUser t0;
                    newUser = (case tb_assignedUser body of None \<Rightarrow> prevUser | Some a \<Rightarrow> a);
                    t = assign_task t0 body;
                    s1 = s\<lparr>tasks := save_task t (tasks s)\<rparr>
                in if prevUser \<noteq> newUser
                   then
                     (case (if prevUser \<noteq> ''''
                            then findByIdAndUpdate cast u_id prevUser (pull (t_id t)) (users s1)
                            else Inr (users s1)) of
                        Inl e \<Rightarrow> (sendError ''Error updating task'' 500 (ErrMessage e), s1)
                      | Inr us2 \<Rightarrow>
                          (let s2 = s1\<lparr>users := us2\<rparr>
                           in if newUser \<noteq> ''''
                              then
                                (case findById cast u_id newUser (users s2) of
                                   Inl e \<Rightarrow>
                                     (sendError ''Error updating task'' 500 (ErrMessage e), s2)
                                 | Inr None \<Rightarrow> (sendOK t, s2)
                                 | Inr (Some u) \<Rightarrow>
                                     (let t' = t\<lparr>assignedUserName := u_name u\<rparr>;
                                          s3 = s2\<lparr>tasks := save_task t' (tasks s2)\<rparr>
                                      in case findByIdAndUpdate cast u_id newUser
                                                (addToSet (t_id t')) (users s3) of
                                           Inl e \<Rightarrow>
                                             (sendError ''Error updating task'' 500 (ErrMessage e),
                                              s3)
                                         | Inr us4 \<Rightarrow> (sendOK t', s3\<lparr>users := us4\<rparr>)))
                              else (sendOK t, s2)))
                   else (sendOK t, s1)))"

subsection \<open>DELETE /api/tasks/:id\<close>

definition delete_task ::
  "(string \<Rightarrow> bool) \<Rightarrow> (string \<Rightarrow> oid option) \<Rightarrow> string \<Rightarrow> db \<Rightarrow> task reply \<times> db" where
  "delete_task isValid cast i s =
     (if \<not> isValid i then (sendError ''Invalid task id'' 400 Null, s)
      else case findByIdAndDelete cast t_id i (tasks s) of
             Inl e \<Rightarrow> (sendError ''Error deleting task'' 500 (ErrMessage e), s)
           | Inr (None, ts) \<Rightarrow> (sendError ''Task not found'' 404 Null, s)
           | Inr (Some t, ts) \<Rightarrow>
               (let s1 = s\<lparr>tasks := ts\<rparr>
                in if assignedUser t \<noteq> ''''
                   then (case findByIdAndUpdate cast u_id (assignedUser t) (pull (t_id t))
                                (users s1) of
                           Inl e \<Rightarrow> (sendError ''Error deleting task'' 500 (ErrMessage e), s1)
                         | Inr us \<Rightarrow> (sendOK t, s1\<lparr>users := us\<rparr>))
                   else (sendOK t, s1)))"

section \<open>Reading the store\<close>

text \<open>
  The document of a collection with a given id, and whether a string of a request
  resolves to a user: the store can cast it and a user has the id.
\<close>

definition userById :: "oid \<Rightarrow> db \<Rightarrow> user option" where
  "userById c s = find (\<lambda>d. u_id d = c) (users s)"

definition taskById :: "oid \<Rightarrow> db \<Rightarrow> task option" where
  "taskById c s = find (\<lambda>d. t_id d = c) (tasks s)"

definition resolvesUser :: "(string \<Rightarrow> oid option) \<Rightarrow> string \<Rightarrow> db \<Rightarrow> bool" where
  "resolvesUser cast a s = (case cast a of None \<Rightarrow> False | Some c \<Rightarrow> userById c s \<noteq> None)"

section \<open>Listing\<close>

text \<open>
  The two list handlers turn the query parameters into a query for the store. A number
  of the handler is an integer, an infinity or \<^verbatim>\<open>NaN\<close>. \<open>parseInt\<close> stands for
  \<^verbatim>\<open>parseInt(x, 10)\<close>, a function of the language, and is a parameter of the
  handlers; \<^verbatim>\<open>Math.max\<close> and \<^verbatim>\<open>Math.min\<close> hand \<^verbatim>\<open>NaN\<close> on.
\<close>

datatype js_number = NaN | NegInfinity | Num int | Infinity

definition math_max :: "int \<Rightarrow> js_number \<Rightarrow> js_number" where
  "math_max a x =
     (case x of NaN \<Rightarrow> NaN | NegInfinity \<Rightarrow> Num a | Num n \<Rightarrow> Num (max a n)
      | Infinity \<Rightarrow> Infinity)"

definition math_min :: "int \<Rightarrow> js_number \<Rightarrow> js_number" where
  "math_min a x =
     (case x of NaN \<Rightarrow> NaN | NegInfinity \<Rightarrow> NegInfinity | Num n \<Rightarrow> Num (min a n)
      | Infinity \<Rightarrow> Num a)"

definition positive :: "js_number \<Rightarrow> bool" where
  "positive x = (case x of Num n \<Rightarrow> 0 < n | Infinity \<Rightarrow> True | _ \<Rightarrow> False)"

text \<open>
  The query parameters of a list request, each absent or a text. The filter, the sort
  and the projection go to the store as they are; the query of the model keeps what the
  handler computes itself: whether the request counts, the skip and the limit.
  \<open>q_limit\<close> is \<open>None\<close> when the handler puts no limit on the query.
\<close>

record list_params =
  lp_where :: "string option"
  lp_sort :: "string option"
  lp_select :: "string option"
  lp_skip :: "string option"
  lp_limit :: "string option"
  lp_count :: "string option"

datatype store_query =
  CountDocuments
| Find (q_skip: js_number) (q_limit: "js_number option")

definition skipNum :: "(string \<Rightarrow> js_number) \<Rightarrow> string option \<Rightarrow> js_number" where
  "skipNum parseInt skip = math_max 0 (parseInt (orElse skip ''0''))"

subsection \<open>GET /api/users\<close>

definition users_limitNum :: "(string \<Rightarrow> js_number) \<Rightarrow> string option \<Rightarrow> js_number" where
  "users_limitNum parseInt limit =
     (if truthy limit then math_max 0 (parseInt (the limit)) else Num 0)"

definition users_query :: "(string \<Rightarrow> js_number) \<Rightarrow> list_params \<Rightarrow> store_query" where
  "users_query parseInt p =
     (if lp_count p = Some ''true'' then CountDocuments
      else Find (skipNum parseInt (lp_skip p))
             (if positive (users_limitNum parseInt (lp_limit p))
              then Some (users_limitNum parseInt (lp_limit p)) else None))"

subsection \<open>GET /api/tasks\<close>

definition tasks_limitNum :: "(string \<Rightarrow> js_number) \<Rightarrow> string option \<Rightarrow> js_number" where
  "tasks_limitNum parseInt limit =
     math_min 1000 (math_max 0 (parseInt (orElse limit ''100'')))"

definition tasks_query :: "(string \<Rightarrow> js_number) \<Rightarrow> list_params \<Rightarrow> store_query" where
  "tasks_query parseInt p =
     (if lp_count p = Some ''true'' then CountDocuments
      else Find (skipNum parseInt (lp_skip p)) (Some (tasks_limitNum parseInt (lp_limit p))))"

subsection \<open>The answer of the store\<close>

text \<open>
  The documents the store returns to a query without filter, sort and projection whose
  skip is a natural number and whose limit is absent or a natural number: the skip is
  applied first, and a limit of 0 is no limit. \<open>None\<close> stands for the other queries,
  which the model does not answer.
\<close>

fun found :: "store_query \<Rightarrow> 'a list \<Rightarrow> 'a list option" where
  "found (Find (Num k) None) docs = (if 0 \<le> k then Some (drop (nat k) docs) else None)"
| "found (Find (Num k) (Some (Num n))) docs =
     (if 0 \<le> k \<and> 0 < n then Some (take (nat n) (drop (nat k) docs))
      else if 0 \<le> k \<and> n = 0 then Some (drop (nat k) docs)
      else None)"
| "found q docs = None"

section \<open>Example data\<close>

text \<open>
  Instances of the parameters for the examples. \<open>cast24\<close> reads 24 hexadecimal digits
  of either case as the id with the digits in lower case, and nothing else; \<open>hex24\<close> is
  the test it goes with. \<open>parse3\<close> has the values of \<^verbatim>\<open>parseInt\<close> on the three
  texts the examples hand to it.
\<close>

definition lowerHex :: "char \<Rightarrow> char option" where
  "lowerHex c =
     (if c \<in> set ''0123456789abcdef'' then Some c
      else if c = CHR ''A'' then Some CHR ''a''
      else if c = CHR ''B'' then Some CHR ''b''
      else if c = CHR ''C'' then Some CHR ''c''
      else if c = CHR ''D'' then Some CHR ''d''
      else if c = CHR ''E'' then Some CHR ''e''
      else if c = CHR ''F'' then Some CHR ''f''
      else None)"

definition cast24 :: "string \<Rightarrow> oid option" where
  "cast24 x =
     (if length x = 24 \<and> list_all (\<lambda>c. lowerHex c \<noteq> None) x
      then Some (map (\<lambda>c. the (lowerHex c)) x) else None)"

definition hex24 :: "string \<Rightarrow> bool" where
  "hex24 x = (cast24 x \<noteq> None)"

definition parse3 :: "string \<Rightarrow> js_number" where
  "parse3 x =
     (if x = ''0'' then Num 0 else if x = ''100'' then Num 100
      else if x = ''5000'' then Num 5000 else NaN)"

definition annId :: oid where "annId = ''64b0000000000000000000a1''"
definition bobId :: oid where "bobId = ''64b0000000000000000000b2''"
definition noId :: oid where "noId = ''64b0000000000000000000c3''"
definition fixId :: oid where "fixId = ''64b0000000000000000000f1''"

text \<open>Ann's id as a client may write it, in upper case.\<close>

definition annIdUpper :: string where "annIdUpper = ''64B0000000000000000000A1''"

definition ann :: user where
  "ann = \<lparr>u_id = annId, u_name = ''Ann'', email = ''a@x.com'', pendingTasks = []\<rparr>"

definition bob :: user where
  "bob = \<lparr>u_id = bobId, u_name = ''Bob'', email = ''b@x.com'', pendingTasks = []\<rparr>"

definition fixBug :: task where
  "fixBug = \<lparr>t_id = fixId, t_name = ''Fix bug'', description = '''', deadline = 0,
             completed = False, assignedUser = annId, assignedUserName = ''Ann''\<rparr>"

definition noUserBody :: user_body where
  "noUserBody = \<lparr>ub_name = None, ub_email = None, ub_pendingTasks = None\<rparr>"

definition noTaskBody :: task_body where
  "noTaskBody = \<lparr>tb_name = None, tb_description = None, tb_deadline = None,
                 tb_completed = None, tb_assignedUser = None, tb_assignedUserName = None\<rparr>"

definition noParams :: list_params where
  "noParams = \<lparr>lp_where = None, lp_sort = None, lp_select = None, lp_skip = None,
               lp_limit = None, lp_count = None\<rparr>"

text \<open>Ann and Bob, with the task ``Fix bug'' assigned to Ann on both sides.\<close>

definition annDb :: db where
  "annDb = \<lparr>users = [ann\<lparr>pendingTasks := [fixId]\<rparr>, bob], tasks = [fixBug]\<rparr>"

text \<open>Ann and Bob before any task exists, and the request that creates ``Fix bug'' for Ann.\<close>

definition usersDb :: db where
  "usersDb = \<lparr>users = [ann, bob], tasks = []\<rparr>"

definition fixBody :: task_body where
  "fixBody = noTaskBody\<lparr>tb_name := Some ''Fix bug'', tb_assignedUser := Some annId\<rparr>"

text \<open>
  Requests on ``Fix bug'': one that hands it to an id no user has, one that does so and
  names the assignee itself, one that hands it to Bob, and one that clears the
  assignment.
\<close>

definition danglingBody :: task_body where
  "danglingBody = noTaskBody\<lparr>tb_assignedUser := Some noId\<rparr>"

definition zedBody :: task_body where
  "zedBody = noTaskBody\<lparr>tb_assignedUser := Some noId, tb_assignedUserName := Some ''Zed''\<rparr>"

definition bobBody :: task_body where
  "bobBody = noTaskBody\<lparr>tb_assignedUser := Some bobId\<rparr>"

definition clearBody :: task_body where
  "clearBody = noTaskBody\<lparr>tb_assignedUser := Some ''''\<rparr>"

text \<open>
  Requests that create a task and name its assignee themselves, without an
  \<^verbatim>\<open>assignedUser\<close> and with one that no user has; a request that creates a task
  without either field; and one whose \<^verbatim>\<open>assignedUser\<close> is not the text of an id,
  with the store it leaves behind.
\<close>

definition namedBody :: task_body where
  "namedBody = noTaskBody\<lparr>tb_name := Some ''Fix bug'', tb_assignedUserName := Some ''Zed''\<rparr>"

definition namedDanglingBody :: task_body where
  "namedDanglingBody = namedBody\<lparr>tb_assignedUser := Some noId\<rparr>"

definition plainBody :: task_body where
  "plainBody = noTaskBody\<lparr>tb_name := Some ''Fix bug''\<rparr>"

definition abcBody :: task_body where
  "abcBody = noTaskBody\<lparr>tb_name := Some ''Fix bug'', tb_assignedUser := Some ''abc''\<rparr>"

definition abcTask :: task where
  "abcTask = fixBug\<lparr>assignedUser := ''abc'', assignedUserName := ''unknown''\<rparr>"

definition abcDb :: db where
  "abcDb = snd (post_task cast24 0 fixId abcBody usersDb)"

text \<open>
  Renaming Ann, in the store where ``Fix bug'' is hers, and then sending her own
  \<^verbatim>\<open>pendingTasks\<close> again.
\<close>

definition renameBody :: user_body where
  "renameBody = noUserBody\<lparr>ub_name := Some ''Anna''\<rparr>"

definition renamedDb :: db where
  "renamedDb = snd (put_user hex24 cast24 annId renameBody annDb)"

definition samePendingBody :: user_body where
  "samePendingBody = noUserBody\<lparr>ub_pendingTasks := Some [fixId]\<rparr>"

text \<open>
  A store with 1001 tasks, the \<open>k\<close>-th with the number \<open>k\<close> in 24 hexadecimal digits
  as its id, and the list requests of the examples.
\<close>

definition hexDigit :: "nat \<Rightarrow> char" where
  "hexDigit d = ''0123456789abcdef'' ! d"

definition hexId :: "nat \<Rightarrow> oid" where
  "hexId k =
     replicate 21 (CHR ''0'')
       @ [hexDigit (k div 256 mod 16), hexDigit (k div 16 mod 16), hexDigit (k mod 16)]"

definition taskNo :: "nat \<Rightarrow> task" where
  "taskNo k = \<lparr>t_id = hexId k, t_name = ''Task'', description = '''', deadline = 0,
               completed = False, assignedUser = '''', assignedUserName = ''unassigned''\<rparr>"

definition manyDb :: db where
  "manyDb = \<lparr>users = [], tasks = map taskNo [0..<1001]\<rparr>"

definition zeroLimit :: list_params where
  "zeroLimit = noParams\<lparr>lp_limit := Some ''0''\<rparr>"

definition bigLimit :: list_params where
  "bigLimit = noParams\<lparr>lp_limit := Some ''5000''\<rparr>"

section \<open>Facts about the store operations\<close>

lemma find_updateOne_same:
  "(\<And>d. ident d = i \<Longrightarrow> ident (f d) = i) \<Longrightarrow>
   find (\<lambda>d. ident d = i) (updateOne (\<lambda>d. ident d = i) f ds)
     = map_option f (find (\<lambda>d. ident d = i) ds)"
  by (induction ds) auto

lemma find_updateOne_other:
  "i \<noteq> j \<Longrightarrow> (\<And>d. ident d = j \<Longrightarrow> ident (f d) = j) \<Longrightarrow>
   find (\<lambda>d. ident d = i) (updateOne (\<lambda>d. ident d = j) f ds)
     = find (\<lambda>d. ident d = i) ds"
  by (induction ds) auto

lemma find_ident: "find (\<lambda>d. ident d = i) ds = Some d \<Longrightarrow> ident d = i"
  by (induction ds) (auto split: if_splits)

lemma find_mem: "find p ds = Some d \<Longrightarrow> d \<in> set ds \<and> p d"
  by (induction ds) (auto split: if_splits)

lemma find_append_new:
  "find (\<lambda>d. ident d = i) (ds @ [d]) =
     (case find (\<lambda>d. ident d = i) ds of Some x \<Rightarrow> Some x
      | None \<Rightarrow> if ident d = i then Some d else None)"
  by (induction ds) auto

lemma updateOne_none: "find p ds = None \<Longrightarrow> updateOne p f ds = ds"
  by (induction ds) (auto split: if_splits)

lemma updateOne_id: "(\<And>d. find p ds = Some d \<Longrightarrow> f d = d) \<Longrightarrow> updateOne p f ds = ds"
  by (induction ds) (auto split: if_splits)

lemma updateOne_first: "find p ds = Some d \<Longrightarrow> updateOne p (\<lambda>_. g d) ds = updateOne p g ds"
  by (induction ds) (auto split: if_splits)

lemma updateOne_distinct:
  "distinct (map ident ds) \<Longrightarrow> (\<And>d. ident (f d) = ident d) \<Longrightarrow>
   updateOne (\<lambda>d. ident d = i) f ds = map (\<lambda>d. if ident d = i then f d else d) ds"
proof (induction ds)
  case Nil
  then show ?case by simp
next
  case (Cons d ds)
  show ?case
  proof (cases "ident d = i")
    case True
    with Cons.prems(1) have "\<forall>x \<in> set ds. ident x \<noteq> i" by (auto simp: image_iff)
    then have "map (\<lambda>d. if ident d = i then f d else d) ds = ds"
      by (induction ds) auto
    with True show ?thesis by simp
  next
    case False
    with Cons show ?thesis by simp
  qed
qed

lemma find_deleteOne_distinct:
  "distinct (map ident ds) \<Longrightarrow>
   find (\<lambda>d. ident d = i) (deleteOne (\<lambda>d. ident d = i) ds) = None"
  by (induction ds) (auto simp: find_None_iff image_iff)

lemma find_map_same_id:
  "(\<And>d. ident (h d) = ident d) \<Longrightarrow>
   find (\<lambda>d. ident d = i) (map h ds) = map_option h (find (\<lambda>d. ident d = i) ds)"
  by (induction ds) auto

lemma findById_Some:
  "findById cast ident i ds = Inr (Some d) \<Longrightarrow>
   cast i = Some (ident d) \<and> find (\<lambda>x. ident x = ident d) ds = Some d"
  by (auto simp: findById_def dest: find_ident split: option.splits)

section \<open>Facts about the handlers\<close>

lemma assign_task_id [simp]: "t_id (assign_task t body) = t_id t"
  by (simp add: assign_task_def)

lemma pull_id [simp]: "u_id (pull x u) = u_id u"
  by (simp add: pull_def)

lemma addToSet_id [simp]: "u_id (addToSet x u) = u_id u"
  by (simp add: addToSet_def)

lemma pull_not_mem: "x \<notin> set (pendingTasks (pull x u))"
  by (simp add: pull_def)

lemma addToSet_mem: "x \<in> set (pendingTasks (addToSet x u))"
  by (simp add: addToSet_def)

lemma find_save_task:
  "find (\<lambda>d. t_id d = t_id t) (save_task t ts)
     = map_option (\<lambda>_. t) (find (\<lambda>d. t_id d = t_id t) ts)"
  unfolding save_task_def by (rule find_updateOne_same) simp

text \<open>The casts and the lookups on the example data.\<close>

lemma cast24_ids:
  "cast24 annId = Some annId" "cast24 bobId = Some bobId" "cast24 noId = Some noId"
  "cast24 fixId = Some fixId" "cast24 annIdUpper = Some annId" "cast24 ''abc'' = None"
  "cast24 '''' = None"
  by (simp_all add: cast24_def lowerHex_def annId_def bobId_def noId_def fixId_def
      annIdUpper_def)

lemma hex24_ids: "hex24 annId" "hex24 bobId" "hex24 noId" "hex24 fixId" "hex24 annIdUpper"
  by (simp_all add: hex24_def cast24_ids)

lemma ids_differ:
  "annId \<noteq> bobId" "annId \<noteq> noId" "bobId \<noteq> noId" "bobId \<noteq> annId" "noId \<noteq> annId"
  "noId \<noteq> bobId" "annId \<noteq> ''''" "bobId \<noteq> ''''" "noId \<noteq> ''''" "fixId \<noteq> ''''"
  "annIdUpper \<noteq> annId" "annId \<noteq> annIdUpper" "annIdUpper \<noteq> ''''"
  by (simp_all add: annId_def bobId_def noId_def fixId_def annIdUpper_def)

lemma annDb_lookups:
  "taskById fixId annDb = Some fixBug"
  "findById cast24 u_id annId (users annDb) = Inr (Some (ann\<lparr>pendingTasks := [fixId]\<rparr>))"
  "findById cast24 u_id bobId (users annDb) = Inr (Some bob)"
  "\<not> resolvesUser cast24 noId annDb"
  "userById annId annDb = Some (ann\<lparr>pendingTasks := [fixId]\<rparr>)"
  by (simp_all add: taskById_def userById_def resolvesUser_def findById_def cast24_ids
      annDb_def fixBug_def ann_def bob_def ids_differ)

section \<open>Creating a user\<close>

text \<open>
  C7. POST /api/users with a body whose name or email is missing, or whose email is the
  email of a user already in the collection, is answered with status 400 and leaves the
  store as it was: no document is created.
\<close>

theorem post_user_rejects:
  "\<not> truthy (ub_name body) \<or> \<not> truthy (ub_email body)
     \<or> (\<exists>u \<in> set (users s). ub_email body = Some (email u)) \<Longrightarrow>
   status (fst (post_user newId body s)) = 400 \<and> snd (post_user newId body s) = s"
  by (auto simp: post_user_def sendError_def find_None_iff split: option.splits)

theorem post_user_rejects_witness:
  "(\<exists>u \<in> set (users annDb).
      ub_email (noUserBody\<lparr>ub_name := Some ''Al'', ub_email := Some ''a@x.com''\<rparr>)
        = Some (email u))
   \<and> status (fst (post_user noId
        (noUserBody\<lparr>ub_name := Some ''Al'', ub_email := Some ''a@x.com''\<rparr>) annDb)) = 400
   \<and> snd (post_user noId
        (noUserBody\<lparr>ub_name := Some ''Al'', ub_email := Some ''a@x.com''\<rparr>) annDb) = annDb"
proof -
  have dup: "\<exists>u \<in> set (users annDb).
      ub_email (noUserBody\<lparr>ub_name := Some ''Al'', ub_email := Some ''a@x.com''\<rparr>)
        = Some (email u)"
    by (simp add: annDb_def ann_def noUserBody_def)
  from post_user_rejects [of "noUserBody\<lparr>ub_name := Some ''Al'', ub_email := Some ''a@x.com''\<rparr>"
      annDb noId] dup
  show ?thesis by blast
qed

section \<open>Creating a task\<close>

text \<open>
  C1. POST /api/tasks with a name and an \<^verbatim>\<open>assignedUser\<close> that the store resolves to
  an existing user \<open>u\<close>: the task of the reply and the task stored under the new id both
  carry the name of \<open>u\<close> as \<^verbatim>\<open>assignedUserName\<close>, and afterwards the user's
  \<^verbatim>\<open>pendingTasks\<close> contain the id of the task: the list is the old one when it had the
  id already, and the old one with the id appended otherwise.
\<close>

theorem post_task_assigned:
  assumes name: "truthy (tb_name body)"
    and au: "tb_assignedUser body = Some a" "a \<noteq> ''''"
    and u: "findById cast u_id a (users s) = Inr (Some u)"
  shows "fst (post_task cast now newId body s)
           = sendCreated ((taskData now newId body)\<lparr>assignedUserName := u_name u\<rparr>)
       \<and> taskById newId (snd (post_task cast now newId body s))
           = Some ((taskData now newId body)\<lparr>assignedUserName := u_name u\<rparr>)
       \<and> userById (u_id u) (snd (post_task cast now newId body s))
           = Some (u\<lparr>pendingTasks :=
                       (if newId \<in> set (pendingTasks u) then pendingTasks u
                        else pendingTasks u @ [newId])\<rparr>)
       \<and> newId \<in> set (pendingTasks
            (the (userById (u_id u) (snd (post_task cast now newId body s)))))"
proof -
  let ?t = "taskData now newId body"
  let ?t' = "?t\<lparr>assignedUserName := u_name u\<rparr>"
  from findById_Some [OF u]
  have f: "find (\<lambda>d. u_id d = u_id u) (users s) = Some u" by simp
  have tid: "t_id ?t' = newId" by (simp add: taskData_def)
  have tr: "truthy (tb_assignedUser body)" using au by (simp add: truthy_def)
  have run: "post_task cast now newId body s
      = (sendCreated ?t',
         s\<lparr>tasks := save_task ?t' (tasks s @ [?t]),
           users := updateOne (\<lambda>d. u_id d = u_id u) (addToSet newId) (users s)\<rparr>)"
    using name tr au u tid by (simp add: post_task_def Let_def)
  have ft: "find (\<lambda>d. t_id d = newId) (save_task ?t' (tasks s @ [?t])) = Some ?t'"
    using find_save_task [of ?t' "tasks s @ [?t]"] tid
    by (simp add: find_append_new taskData_def split: option.splits)
  have fu: "find (\<lambda>d. u_id d = u_id u)
              (updateOne (\<lambda>d. u_id d = u_id u) (addToSet newId) (users s))
      = Some (addToSet newId u)"
    using f by (simp add: find_updateOne_same)
  show ?thesis
    by (simp add: run ft fu userById_def taskById_def) (simp add: addToSet_def)
qed

theorem post_task_assigned_witness:
  "truthy (tb_name fixBody) \<and> tb_assignedUser fixBody = Some annId \<and> annId \<noteq> ''''
   \<and> findById cast24 u_id annId (users usersDb) = Inr (Some ann)
   \<and> fst (post_task cast24 0 fixId fixBody usersDb) = sendCreated fixBug
   \<and> taskById fixId (snd (post_task cast24 0 fixId fixBody usersDb)) = Some fixBug
   \<and> userById annId (snd (post_task cast24 0 fixId fixBody usersDb))
       = Some (ann\<lparr>pendingTasks := [fixId]\<rparr>)"
proof -
  have h1: "truthy (tb_name fixBody)"
    by (simp add: fixBody_def noTaskBody_def truthy_def)
  have h2: "tb_assignedUser fixBody = Some annId"
    by (simp add: fixBody_def noTaskBody_def)
  have h3: "annId \<noteq> ''''" by (rule ids_differ)
  have h4: "findById cast24 u_id annId (users usersDb) = Inr (Some ann)"
    by (simp add: findById_def cast24_ids usersDb_def ann_def)
  have t: "(taskData 0 fixId fixBody)\<lparr>assignedUserName := u_name ann\<rparr> = fixBug"
    by (simp add: taskData_def fixBody_def noTaskBody_def fixBug_def ann_def orElse_def
        truthy_def ids_differ)
  have p: "pendingTasks ann = []" "u_id ann = annId" by (simp_all add: ann_def)
  from post_task_assigned [OF h1 h2 h3 h4, of 0 fixId] h1 h2 h3 h4
  show ?thesis by (simp add: t p)
qed

section \<open>Updating a task\<close>

text \<open>
  C3. PUT /api/tasks/:id on a task assigned to user A, with a body whose
  \<^verbatim>\<open>assignedUser\<close> resolves to another user B, both users existing and both strings
  non-empty: the request succeeds, afterwards A's \<^verbatim>\<open>pendingTasks\<close> do not contain the
  id of the task and B's do, and the stored task is assigned to B under B's name.
\<close>

theorem put_task_reassigned:
  assumes i: "isValid i" "cast i = Some c"
    and t0: "taskById c s = Some t0"
    and a: "assignedUser t0 = a" "a \<noteq> ''''"
    and b: "tb_assignedUser body = Some b" "b \<noteq> ''''"
    and ua: "findById cast u_id a (users s) = Inr (Some ua)"
    and ub: "findById cast u_id b (users s) = Inr (Some ub)"
    and ne: "u_id ua \<noteq> u_id ub"
  shows "fst (put_task isValid cast i body s)
           = sendOK ((assign_task t0 body)\<lparr>assignedUserName := u_name ub\<rparr>)
       \<and> userById (u_id ua) (snd (put_task isValid cast i body s)) = Some (pull c ua)
       \<and> c \<notin> set (pendingTasks (pull c ua))
       \<and> userById (u_id ub) (snd (put_task isValid cast i body s)) = Some (addToSet c ub)
       \<and> c \<in> set (pendingTasks (addToSet c ub))
       \<and> taskById c (snd (put_task isValid cast i body s))
           = Some ((assign_task t0 body)\<lparr>assignedUserName := u_name ub\<rparr>)
       \<and> assignedUser ((assign_task t0 body)\<lparr>assignedUserName := u_name ub\<rparr>) = b"
proof -
  let ?t = "assign_task t0 body"
  let ?t' = "?t\<lparr>assignedUserName := u_name ub\<rparr>"
  let ?us2 = "updateOne (\<lambda>d. u_id d = u_id ua) (pull c) (users s)"
  from findById_Some [OF ua]
  have ca: "cast a = Some (u_id ua)" and fa: "find (\<lambda>d. u_id d = u_id ua) (users s) = Some ua"
    by simp_all
  from findById_Some [OF ub]
  have cb: "cast b = Some (u_id ub)" and fb: "find (\<lambda>d. u_id d = u_id ub) (users s) = Some ub"
    by simp_all
  from ca cb ne have ab: "a \<noteq> b" by auto
  from t0 have f0: "find (\<lambda>d. t_id d = c) (tasks s) = Some t0"
    by (simp add: taskById_def)
  have ti: "t_id t0 = c" using f0 by (rule find_ident)
  have fb2: "find (\<lambda>d. u_id d = u_id ub) ?us2 = Some ub"
    using ne fb by (simp add: find_updateOne_other)
  have run: "put_task isValid cast i body s
      = (sendOK ?t',
         s\<lparr>tasks := save_task ?t' (save_task ?t (tasks s)),
           users := updateOne (\<lambda>d. u_id d = u_id ub) (addToSet c) ?us2\<rparr>)"
    using i f0 a b ab ca cb ti fb2
    by (simp add: put_task_def Let_def findById_def findByIdAndUpdate_def)
  have fa': "find (\<lambda>d. u_id d = u_id ua)
               (updateOne (\<lambda>d. u_id d = u_id ub) (addToSet c) ?us2) = Some (pull c ua)"
    using ne fa by (simp add: find_updateOne_other find_updateOne_same)
  have fb': "find (\<lambda>d. u_id d = u_id ub)
               (updateOne (\<lambda>d. u_id d = u_id ub) (addToSet c) ?us2) = Some (addToSet c ub)"
    using fb2 by (simp add: find_updateOne_same)
  have ft: "find (\<lambda>d. t_id d = c) (save_task ?t' (save_task ?t (tasks s))) = Some ?t'"
    using find_save_task [of ?t' "save_task ?t (tasks s)"] find_save_task [of ?t "tasks s"] f0 ti
    by simp
  have au: "assignedUser ?t' = b" using b(1) by (simp add: assign_task_def)
  show ?thesis
    by (simp add: run fa' fb' ft au pull_not_mem addToSet_mem userById_def taskById_def)
qed

theorem put_task_reassigned_witness:
  "hex24 fixId \<and> cast24 fixId = Some fixId \<and> taskById fixId annDb = Some fixBug
   \<and> assignedUser fixBug = annId \<and> annId \<noteq> ''''
   \<and> tb_assignedUser bobBody = Some bobId \<and> bobId \<noteq> ''''
   \<and> findById cast24 u_id annId (users annDb) = Inr (Some (ann\<lparr>pendingTasks := [fixId]\<rparr>))
   \<and> findById cast24 u_id bobId (users annDb) = Inr (Some bob)
   \<and> u_id (ann\<lparr>pendingTasks := [fixId]\<rparr>) \<noteq> u_id bob
   \<and> userById annId (snd (put_task hex24 cast24 fixId bobBody annDb)) = Some ann
   \<and> userById bobId (snd (put_task hex24 cast24 fixId bobBody annDb))
       = Some (bob\<lparr>pendingTasks := [fixId]\<rparr>)
   \<and> taskById fixId (snd (put_task hex24 cast24 fixId bobBody annDb))
       = Some (fixBug\<lparr>assignedUser := bobId, assignedUserName := ''Bob''\<rparr>)"
proof -
  have h1: "hex24 fixId" "cast24 fixId = Some fixId"
    by (rule hex24_ids, rule cast24_ids)
  have h3: "assignedUser fixBug = annId" by (simp add: fixBug_def)
  have h4: "annId \<noteq> ''''" "bobId \<noteq> ''''" by (rule ids_differ)+
  have h5: "tb_assignedUser bobBody = Some bobId" by (simp add: bobBody_def)
  have h6: "u_id (ann\<lparr>pendingTasks := [fixId]\<rparr>) \<noteq> u_id bob"
    by (simp add: ann_def bob_def ids_differ)
  have ids: "u_id (ann\<lparr>pendingTasks := [fixId]\<rparr>) = annId" "u_id bob = bobId"
    by (simp_all add: ann_def bob_def)
  have e1: "pull fixId (ann\<lparr>pendingTasks := [fixId]\<rparr>) = ann"
    by (simp add: pull_def ann_def)
  have e2: "addToSet fixId bob = bob\<lparr>pendingTasks := [fixId]\<rparr>"
    by (simp add: addToSet_def bob_def)
  have e3: "(assign_task fixBug bobBody)\<lparr>assignedUserName := u_name bob\<rparr>
      = fixBug\<lparr>assignedUser := bobId, assignedUserName := ''Bob''\<rparr>"
    by (simp add: assign_task_def bobBody_def noTaskBody_def fixBug_def bob_def)
  from put_task_reassigned [where isValid = hex24 and cast = cast24 and i = fixId,
      OF h1 annDb_lookups(1) h3 h4(1) h5 h4(2) annDb_lookups(2) annDb_lookups(3) h6]
    h1 h3 h4 h5 h6 annDb_lookups
  show ?thesis by (simp add: e1 e2 e3 ids)
qed

text \<open>
  C2 on the code. ``Fix bug'' is assigned to Ann, whose \<^verbatim>\<open>pendingTasks\<close> hold its id.
  PUT /api/tasks/:id with \<^verbatim>\<open>assignedUser\<close> set to the empty string empties Ann's
  \<^verbatim>\<open>pendingTasks\<close>, but the task of the reply and the stored task keep the name
  Ann as \<^verbatim>\<open>assignedUserName\<close>: the handler writes that field only when it finds a new
  user.
\<close>

theorem put_task_cleared_keeps_name:
  "fst (put_task hex24 cast24 fixId clearBody annDb) = sendOK (fixBug\<lparr>assignedUser := ''''\<rparr>)
   \<and> taskById fixId (snd (put_task hex24 cast24 fixId clearBody annDb))
       = Some (fixBug\<lparr>assignedUser := ''''\<rparr>)
   \<and> assignedUserName (fixBug\<lparr>assignedUser := ''''\<rparr>) = ''Ann''
   \<and> get_user hex24 cast24 annId (snd (put_task hex24 cast24 fixId clearBody annDb))
       = sendOK ann
   \<and> pendingTasks ann = []"
  by (simp add: put_task_def get_user_def findById_def findByIdAndUpdate_def hex24_ids
      cast24_ids ids_differ taskById_def annDb_def clearBody_def noTaskBody_def
      assign_task_def save_task_def pull_def sendOK_def ann_def bob_def fixBug_def Let_def)

text \<open>
  The same for every store: clearing the assignment of a task with a body that has no
  \<^verbatim>\<open>assignedUserName\<close> removes the id from the previous user's \<^verbatim>\<open>pendingTasks\<close>
  and leaves the previous name on the task.
\<close>

lemma put_task_cleared:
  assumes i: "isValid i" "cast i = Some c"
    and t0: "taskById c s = Some t0"
    and a: "assignedUser t0 = a" "a \<noteq> ''''"
    and b: "tb_assignedUser body = Some ''''" "tb_assignedUserName body = None"
    and ua: "findById cast u_id a (users s) = Inr (Some ua)"
  shows "userById (u_id ua) (snd (put_task isValid cast i body s)) = Some (pull c ua)
       \<and> taskById c (snd (put_task isValid cast i body s)) = Some (assign_task t0 body)
       \<and> assignedUser (assign_task t0 body) = ''''
       \<and> assignedUserName (assign_task t0 body) = assignedUserName t0
       \<and> fst (put_task isValid cast i body s) = sendOK (assign_task t0 body)"
proof -
  let ?t = "assign_task t0 body"
  let ?us2 = "updateOne (\<lambda>d. u_id d = u_id ua) (pull c) (users s)"
  from findById_Some [OF ua]
  have ca: "cast a = Some (u_id ua)" and fa: "find (\<lambda>d. u_id d = u_id ua) (users s) = Some ua"
    by simp_all
  from t0 have f0: "find (\<lambda>d. t_id d = c) (tasks s) = Some t0"
    by (simp add: taskById_def)
  have ti: "t_id t0 = c" using f0 by (rule find_ident)
  have run: "put_task isValid cast i body s
      = (sendOK ?t, s\<lparr>tasks := save_task ?t (tasks s), users := ?us2\<rparr>)"
    using i f0 a b ca ti
    by (simp add: put_task_def Let_def findById_def findByIdAndUpdate_def)
  have fa': "find (\<lambda>d. u_id d = u_id ua) ?us2 = Some (pull c ua)"
    using fa by (simp add: find_updateOne_same)
  have ft: "find (\<lambda>d. t_id d = c) (save_task ?t (tasks s)) = Some ?t"
    using find_save_task [of ?t "tasks s"] f0 ti by simp
  show ?thesis
    using b by (simp add: run fa' ft userById_def taskById_def) (simp add: assign_task_def)
qed

lemma find_updateOne_absent:
  "(\<And>d. ident (f d) = ident d) \<Longrightarrow> find (\<lambda>d. ident d = i) ds = None \<Longrightarrow>
   find (\<lambda>d. ident d = i) (updateOne p f ds) = None"
  by (induction ds) (auto split: if_splits)

text \<open>
  C10, as the code has it. PUT /api/tasks/:id on a task assigned to an existing user A,
  with a body whose \<^verbatim>\<open>assignedUser\<close> is a non-empty string B, other than A's, that
  does not resolve to a user: the id of the task is removed from A's \<^verbatim>\<open>pendingTasks\<close>,
  and the task is stored with \<^verbatim>\<open>assignedUser\<close> B; its \<^verbatim>\<open>assignedUserName\<close> is the
  one of the body when the body has one, and the previous one otherwise. The reply has
  status 200 when the store can cast B and 500 when it cannot.
\<close>

theorem put_task_dangling:
  assumes i: "isValid i" "cast i = Some c"
    and t0: "taskById c s = Some t0"
    and a: "assignedUser t0 = a" "a \<noteq> ''''"
    and b: "tb_assignedUser body = Some b" "b \<noteq> ''''" "a \<noteq> b"
    and ua: "findById cast u_id a (users s) = Inr (Some ua)"
    and nb: "\<not> resolvesUser cast b s"
  shows "userById (u_id ua) (snd (put_task isValid cast i body s)) = Some (pull c ua)
       \<and> c \<notin> set (pendingTasks (pull c ua))
       \<and> taskById c (snd (put_task isValid cast i body s)) = Some (assign_task t0 body)
       \<and> assignedUser (assign_task t0 body) = b
       \<and> assignedUserName (assign_task t0 body)
           = (case tb_assignedUserName body of None \<Rightarrow> assignedUserName t0 | Some n \<Rightarrow> n)
       \<and> status (fst (put_task isValid cast i body s)) = (if cast b = None then 500 else 200)"
proof -
  let ?t = "assign_task t0 body"
  let ?us2 = "updateOne (\<lambda>d. u_id d = u_id ua) (pull c) (users s)"
  from findById_Some [OF ua]
  have ca: "cast a = Some (u_id ua)" and fa: "find (\<lambda>d. u_id d = u_id ua) (users s) = Some ua"
    by simp_all
  from t0 have f0: "find (\<lambda>d. t_id d = c) (tasks s) = Some t0"
    by (simp add: taskById_def)
  have ti: "t_id t0 = c" using f0 by (rule find_ident)
  have fb2: "findById cast u_id b ?us2
      = (case cast b of None \<Rightarrow> Inl CastError | Some cb \<Rightarrow> Inr None)"
    using nb
    by (auto simp: findById_def resolvesUser_def userById_def find_updateOne_absent
        split: option.splits)
  have run: "put_task isValid cast i body s
      = ((if cast b = None
          then sendError ''Error updating task'' 500 (ErrMessage CastError) else sendOK ?t),
         s\<lparr>tasks := save_task ?t (tasks s), users := ?us2\<rparr>)"
    using i f0 a b ca ti
    by (auto simp: put_task_def Let_def findById_def [of cast t_id] findByIdAndUpdate_def fb2
        split: option.splits)
  have fa': "find (\<lambda>d. u_id d = u_id ua) ?us2 = Some (pull c ua)"
    using fa by (simp add: find_updateOne_same)
  have ft: "find (\<lambda>d. t_id d = c) (save_task ?t (tasks s)) = Some ?t"
    using find_save_task [of ?t "tasks s"] f0 ti by simp
  show ?thesis
    using b(1)
    by (simp add: run fa' ft pull_not_mem sendOK_def sendError_def userById_def taskById_def)
       (simp add: assign_task_def)
qed

theorem put_task_dangling_witness:
  "hex24 fixId \<and> cast24 fixId = Some fixId \<and> taskById fixId annDb = Some fixBug
   \<and> assignedUser fixBug = annId \<and> annId \<noteq> ''''
   \<and> tb_assignedUser danglingBody = Some noId \<and> noId \<noteq> '''' \<and> annId \<noteq> noId
   \<and> findById cast24 u_id annId (users annDb) = Inr (Some (ann\<lparr>pendingTasks := [fixId]\<rparr>))
   \<and> \<not> resolvesUser cast24 noId annDb
   \<and> userById annId (snd (put_task hex24 cast24 fixId danglingBody annDb)) = Some ann
   \<and> taskById fixId (snd (put_task hex24 cast24 fixId danglingBody annDb))
       = Some (fixBug\<lparr>assignedUser := noId\<rparr>)
   \<and> assignedUserName (fixBug\<lparr>assignedUser := noId\<rparr>) = ''Ann''
   \<and> status (fst (put_task hex24 cast24 fixId danglingBody annDb)) = 200"
proof -
  have h1: "hex24 fixId" "cast24 fixId = Some fixId"
    by (rule hex24_ids, rule cast24_ids)
  have h3: "assignedUser fixBug = annId" by (simp add: fixBug_def)
  have h4: "annId \<noteq> ''''" "noId \<noteq> ''''" "annId \<noteq> noId" by (rule ids_differ)+
  have h5: "tb_assignedUser danglingBody = Some noId"
    by (simp add: danglingBody_def)
  have ids: "u_id (ann\<lparr>pendingTasks := [fixId]\<rparr>) = annId" by (simp add: ann_def)
  have e1: "pull fixId (ann\<lparr>pendingTasks := [fixId]\<rparr>) = ann"
    by (simp add: pull_def ann_def)
  have e2: "assign_task fixBug danglingBody = fixBug\<lparr>assignedUser := noId\<rparr>"
    by (simp add: assign_task_def danglingBody_def noTaskBody_def fixBug_def)
  have e3: "assignedUserName (fixBug\<lparr>assignedUser := noId\<rparr>) = ''Ann''"
    by (simp add: fixBug_def)
  from put_task_dangling [where isValid = hex24 and cast = cast24 and i = fixId,
      OF h1 annDb_lookups(1) h3 h4(1) h5 h4(2) h4(3) annDb_lookups(2) annDb_lookups(4)]
    h1 h3 h4 h5 annDb_lookups
  show ?thesis by (simp add: e1 e2 e3 ids cast24_ids)
qed

text \<open>
  The claim C10 as it is worded, that the name always keeps its previous value, fails
  for a body that carries an \<^verbatim>\<open>assignedUserName\<close> of its own: ``Fix bug'' is assigned
  to Ann under the name Ann, the request hands it to an id no user has and names Zed, and
  the task is stored under the name Zed.
\<close>

theorem put_task_dangling_name_counterexample:
  "taskById fixId annDb = Some fixBug \<and> assignedUser fixBug = annId
   \<and> assignedUserName fixBug = ''Ann''
   \<and> tb_assignedUser zedBody = Some noId \<and> \<not> resolvesUser cast24 noId annDb
   \<and> taskById fixId (snd (put_task hex24 cast24 fixId zedBody annDb))
       = Some (fixBug\<lparr>assignedUser := noId, assignedUserName := ''Zed''\<rparr>)
   \<and> assignedUserName (the (taskById fixId (snd (put_task hex24 cast24 fixId zedBody annDb))))
       \<noteq> assignedUserName fixBug"
  by (simp add: put_task_def findById_def findByIdAndUpdate_def hex24_ids cast24_ids
      ids_differ taskById_def userById_def resolvesUser_def annDb_def zedBody_def
      noTaskBody_def assign_task_def save_task_def pull_def sendOK_def ann_def bob_def
      fixBug_def Let_def)

section \<open>The name of the assignee at creation\<close>

text \<open>
  The claim C6 as it is worded fails for a body that carries an \<^verbatim>\<open>assignedUserName\<close>
  of its own: created without an \<^verbatim>\<open>assignedUser\<close>, the task has the name of the body
  and not \<^verbatim>\<open>unassigned\<close>; created with an id that no user has, it has the name of the
  body and not \<^verbatim>\<open>unknown\<close>.
\<close>

theorem post_task_name_counterexample:
  "tb_assignedUser namedBody = None
   \<and> assignedUser (doc (payload (fst (post_task cast24 0 fixId namedBody usersDb)))) = ''''
   \<and> assignedUserName (doc (payload (fst (post_task cast24 0 fixId namedBody usersDb))))
       = ''Zed''
   \<and> assignedUserName (the (taskById fixId (snd (post_task cast24 0 fixId namedBody usersDb))))
       \<noteq> ''unassigned''
   \<and> tb_assignedUser namedDanglingBody = Some noId \<and> \<not> resolvesUser cast24 noId usersDb
   \<and> status (fst (post_task cast24 0 fixId namedDanglingBody usersDb)) = 201
   \<and> assignedUserName (the (taskById fixId
         (snd (post_task cast24 0 fixId namedDanglingBody usersDb)))) \<noteq> ''unknown''"
  by (simp add: post_task_def findById_def cast24_ids ids_differ taskById_def userById_def
      resolvesUser_def usersDb_def namedBody_def namedDanglingBody_def noTaskBody_def
      taskData_def orElse_def truthy_def sendCreated_def ann_def bob_def Let_def)

text \<open>
  C6, as the code has it. POST /api/tasks with a name, and with an \<^verbatim>\<open>assignedUser\<close>
  that is empty or does not resolve to a user: the created task is appended to the tasks
  as the request data make it and the users are not touched. Its \<^verbatim>\<open>assignedUserName\<close>
  is the one of the body when the body has a non-empty one; otherwise it is
  \<^verbatim>\<open>unassigned\<close> when \<^verbatim>\<open>assignedUser\<close> is empty and \<^verbatim>\<open>unknown\<close> when it is not.
  The reply has status 201, or 500 when the store cannot cast the \<^verbatim>\<open>assignedUser\<close>.
\<close>

theorem post_task_default_name:
  assumes name: "truthy (tb_name body)"
    and nu: "\<not> truthy (tb_assignedUser body)
             \<or> \<not> resolvesUser cast (the (tb_assignedUser body)) s"
  shows "tasks (snd (post_task cast now newId body s)) = tasks s @ [taskData now newId body]
       \<and> users (snd (post_task cast now newId body s)) = users s
       \<and> assignedUserName (taskData now newId body)
           = (if truthy (tb_assignedUserName body) then the (tb_assignedUserName body)
              else if truthy (tb_assignedUser body) then ''unknown'' else ''unassigned'')
       \<and> (\<not> truthy (tb_assignedUser body) \<longrightarrow> assignedUser (taskData now newId body) = '''')
       \<and> status (fst (post_task cast now newId body s))
           = (if truthy (tb_assignedUser body) \<and> cast (the (tb_assignedUser body)) = None
              then 500 else 201)"
  using name nu
  by (auto simp: post_task_def Let_def findById_def userById_def resolvesUser_def
      taskData_def orElse_def sendCreated_def sendError_def
      split: sum.splits option.splits)

theorem post_task_default_name_witness:
  "truthy (tb_name plainBody) \<and> \<not> truthy (tb_assignedUser plainBody)
   \<and> tasks (snd (post_task cast24 0 fixId plainBody usersDb))
       = [fixBug\<lparr>assignedUser := '''', assignedUserName := ''unassigned''\<rparr>]
   \<and> assignedUserName (taskData 0 fixId plainBody) = ''unassigned''
   \<and> status (fst (post_task cast24 0 fixId plainBody usersDb)) = 201"
proof -
  have h1: "truthy (tb_name plainBody)" by (simp add: truthy_def plainBody_def)
  have h2: "\<not> truthy (tb_assignedUser plainBody)"
    by (simp add: truthy_def plainBody_def noTaskBody_def)
  then have h2': "\<not> truthy (tb_assignedUser plainBody)
      \<or> \<not> resolvesUser cast24 (the (tb_assignedUser plainBody)) usersDb" ..
  have h3: "\<not> truthy (tb_assignedUserName plainBody)"
    by (simp add: truthy_def plainBody_def noTaskBody_def)
  have e1: "taskData 0 fixId plainBody
      = fixBug\<lparr>assignedUser := '''', assignedUserName := ''unassigned''\<rparr>"
    by (simp add: taskData_def plainBody_def noTaskBody_def fixBug_def orElse_def truthy_def)
  have e2: "tasks usersDb = []" by (simp add: usersDb_def)
  from post_task_default_name [where cast = cast24 and now = 0 and newId = fixId, OF h1 h2']
    h1 h2 h3
  show ?thesis by (simp add: e1 e2)
qed

section \<open>Deleting a user\<close>

text \<open>
  C4 on the code. ``Fix bug'' is assigned to Ann. DELETE /api/users/:id with Ann's id
  written in upper case passes the id test, and the store casts it to Ann's id and
  deletes her; the tasks are then filtered by the string of the request, which is not
  the \<^verbatim>\<open>assignedUser\<close> of any task, so ``Fix bug'' stays assigned to the deleted user
  under the name Ann.
\<close>

theorem delete_user_upper_case_keeps_tasks:
  "hex24 annIdUpper \<and> cast24 annIdUpper = Some annId
   \<and> userById annId annDb = Some (ann\<lparr>pendingTasks := [fixId]\<rparr>)
   \<and> taskById fixId annDb = Some fixBug
   \<and> assignedUser fixBug = annId \<and> assignedUserName fixBug = ''Ann''
   \<and> delete_user hex24 cast24 annIdUpper annDb
       = (sendOK (ann\<lparr>pendingTasks := [fixId]\<rparr>), \<lparr>users = [bob], tasks = [fixBug]\<rparr>)"
  by (simp add: delete_user_def findByIdAndDelete_def updateMany_def unassign_def hex24_ids
      cast24_ids ids_differ userById_def taskById_def annDb_def ann_def bob_def fixBug_def)

text \<open>
  What the handler does for every request that finds its user, in a collection whose ids
  are distinct: the user is deleted, and the tasks cleared are those whose
  \<^verbatim>\<open>assignedUser\<close> is the string \<open>i\<close> of the request, which are the tasks of the
  deleted user when the request writes the id as the store does. The tasks are found by
  their own field: giving the users any other \<^verbatim>\<open>pendingTasks\<close> (the function \<open>g\<close>)
  before the request leaves the resulting tasks the same.
\<close>

lemma delete_user_clears:
  assumes i: "isValid i" "cast i = Some c"
    and u: "userById c s = Some u"
    and d: "distinct (map u_id (users s))"
  shows "fst (delete_user isValid cast i s) = sendOK u
       \<and> userById c (snd (delete_user isValid cast i s)) = None
       \<and> users (snd (delete_user isValid cast i s)) = deleteOne (\<lambda>d. u_id d = c) (users s)
       \<and> tasks (snd (delete_user isValid cast i s))
           = map (\<lambda>t. if assignedUser t = i
                       then t\<lparr>assignedUser := '''', assignedUserName := ''unassigned''\<rparr>
                       else t) (tasks s)
       \<and> tasks (snd (delete_user isValid cast i
                        (s\<lparr>users := map (\<lambda>v. v\<lparr>pendingTasks := g v\<rparr>) (users s)\<rparr>)))
           = tasks (snd (delete_user isValid cast i s))"
proof -
  from u have f: "find (\<lambda>d. u_id d = c) (users s) = Some u"
    by (simp add: userById_def)
  have run: "delete_user isValid cast i s
      = (sendOK u,
         s\<lparr>users := deleteOne (\<lambda>d. u_id d = c) (users s),
           tasks := updateMany (\<lambda>t. assignedUser t = i) unassign (tasks s)\<rparr>)"
    using i f by (simp add: delete_user_def findByIdAndDelete_def)
  have gone: "find (\<lambda>d. u_id d = c) (deleteOne (\<lambda>d. u_id d = c) (users s)) = None"
    using d by (rule find_deleteOne_distinct)
  have f': "find (\<lambda>d. u_id d = c) (map (\<lambda>v. v\<lparr>pendingTasks := g v\<rparr>) (users s))
      = Some (u\<lparr>pendingTasks := g u\<rparr>)"
    using f by (simp add: find_map_same_id)
  have run': "tasks (snd (delete_user isValid cast i
                        (s\<lparr>users := map (\<lambda>v. v\<lparr>pendingTasks := g v\<rparr>) (users s)\<rparr>)))
      = updateMany (\<lambda>t. assignedUser t = i) unassign (tasks s)"
    using i f' by (simp add: delete_user_def findByIdAndDelete_def)
  show ?thesis
    by (simp add: run run' gone userById_def) (simp add: updateMany_def unassign_def)
qed

section \<open>Deleting a task\<close>

text \<open>
  C5 on the code. POST /api/tasks with the \<^verbatim>\<open>assignedUser\<close> \<^verbatim>\<open>abc\<close>, which is not
  the text of an id, stores the task and then fails on the lookup of the user. DELETE
  /api/tasks/:id for that task deletes it and then fails in the same way on the
  \<^verbatim>\<open>$pull\<close>: the reply has status 500, with the task gone.
\<close>

theorem delete_task_uncastable_user_fails:
  "status (fst (post_task cast24 0 fixId abcBody usersDb)) = 500
   \<and> abcDb = \<lparr>users = [ann, bob], tasks = [abcTask]\<rparr>
   \<and> assignedUser abcTask = ''abc'' \<and> t_id abcTask = fixId \<and> hex24 fixId
   \<and> delete_task hex24 cast24 fixId abcDb
       = (sendError ''Error deleting task'' 500 (ErrMessage CastError),
          \<lparr>users = [ann, bob], tasks = []\<rparr>)"
proof -
  have p: "post_task cast24 0 fixId abcBody usersDb
      = (sendError ''Error creating task'' 500 (ErrMessage CastError),
         \<lparr>users = [ann, bob], tasks = [abcTask]\<rparr>)"
    by (simp add: post_task_def findById_def cast24_ids usersDb_def abcBody_def noTaskBody_def
        abcTask_def fixBug_def taskData_def orElse_def truthy_def Let_def)
  have d: "delete_task hex24 cast24 fixId \<lparr>users = [ann, bob], tasks = [abcTask]\<rparr>
      = (sendError ''Error deleting task'' 500 (ErrMessage CastError),
         \<lparr>users = [ann, bob], tasks = []\<rparr>)"
    by (simp add: delete_task_def findByIdAndDelete_def findByIdAndUpdate_def hex24_ids
        cast24_ids abcTask_def fixBug_def Let_def)
  show ?thesis
    by (simp add: abcDb_def p d sendError_def hex24_ids) (simp add: abcTask_def fixBug_def)
qed

text \<open>
  What the handler does when the store can cast the \<^verbatim>\<open>assignedUser\<close> of the task:
  the request succeeds with the deleted task in the reply, and the only change to the
  users is that the id of the task is pulled from the \<^verbatim>\<open>pendingTasks\<close> of the user the
  string resolves to. When it resolves to no user, or the user does not hold the task,
  the users are as they were.
\<close>

lemma delete_task_pulls:
  assumes i: "isValid i" "cast i = Some c"
    and t: "taskById c s = Some t"
    and a: "assignedUser t = a" "a \<noteq> ''''" "cast a = Some ca"
  shows "fst (delete_task isValid cast i s) = sendOK t
       \<and> status (fst (delete_task isValid cast i s)) = 200
       \<and> tasks (snd (delete_task isValid cast i s)) = deleteOne (\<lambda>d. t_id d = c) (tasks s)
       \<and> userById ca (snd (delete_task isValid cast i s)) = map_option (pull c) (userById ca s)
       \<and> (\<forall>u. userById ca (snd (delete_task isValid cast i s)) = Some u
              \<longrightarrow> c \<notin> set (pendingTasks u))
       \<and> (userById ca s = None \<longrightarrow> users (snd (delete_task isValid cast i s)) = users s)
       \<and> (\<forall>u. userById ca s = Some u \<and> c \<notin> set (pendingTasks u)
              \<longrightarrow> users (snd (delete_task isValid cast i s)) = users s)"
proof -
  from t have f: "find (\<lambda>d. t_id d = c) (tasks s) = Some t"
    by (simp add: taskById_def)
  have ti: "t_id t = c" using f by (rule find_ident)
  have run: "delete_task isValid cast i s
      = (sendOK t,
         s\<lparr>tasks := deleteOne (\<lambda>d. t_id d = c) (tasks s),
           users := updateOne (\<lambda>d. u_id d = ca) (pull c) (users s)\<rparr>)"
    using i f a ti by (simp add: delete_task_def findByIdAndDelete_def findByIdAndUpdate_def)
  have fu: "find (\<lambda>d. u_id d = ca) (updateOne (\<lambda>d. u_id d = ca) (pull c) (users s))
      = map_option (pull c) (find (\<lambda>d. u_id d = ca) (users s))"
    by (simp add: find_updateOne_same)
  have none: "find (\<lambda>d. u_id d = ca) (users s) = None \<Longrightarrow>
      updateOne (\<lambda>d. u_id d = ca) (pull c) (users s) = users s"
    by (rule updateOne_none)
  have same: "updateOne (\<lambda>d. u_id d = ca) (pull c) (users s) = users s"
    if "find (\<lambda>d. u_id d = ca) (users s) = Some u" "c \<notin> set (pendingTasks u)" for u
  proof (rule updateOne_id)
    fix d assume "find (\<lambda>d. u_id d = ca) (users s) = Some d"
    with that have "c \<notin> set (pendingTasks d)" by simp
    then have "filter (\<lambda>y. y \<noteq> c) (pendingTasks d) = pendingTasks d"
      by (auto simp: filter_id_conv)
    then show "pull c d = d" by (simp add: pull_def)
  qed
  show ?thesis
    using none same
    by (auto simp: run fu userById_def sendOK_def pull_not_mem)
qed

section \<open>Updating a user\<close>

lemma unassign_removed_subset:
  "set old \<subseteq> set newTasks \<Longrightarrow> unassign_removed cast newTasks old ts = (None, ts)"
  by (induction old) auto

lemma mem_map_filter: "c \<in> set (List.map_filter f xs) \<longleftrightarrow> (\<exists>x \<in> set xs. f x = Some c)"
  by (induction xs) (auto simp: List.map_filter_simps split: option.splits)

lemma list_all2_updateOne:
  "list_all2 R xs ys \<Longrightarrow> (\<And>x y. R x y \<Longrightarrow> p y \<Longrightarrow> R x (f y)) \<Longrightarrow>
   list_all2 R xs (updateOne p f ys)"
  by (induction xs ys rule: list_all2_induct) auto

lemma assign_new_noop:
  "\<forall>tid \<in> set pts. \<forall>c. cast tid = Some c \<longrightarrow> c \<in> L \<Longrightarrow>
   \<forall>t \<in> set ts. t_id t \<in> L \<longrightarrow> assignedUser t = u_id u \<and> assignedUserName t = u_name u \<Longrightarrow>
   snd (assign_new cast u pts ts) = ts"
proof (induction pts)
  case Nil
  then show ?case by simp
next
  case (Cons tid rest)
  show ?case
  proof (cases "findById cast t_id tid ts")
    case (Inl e)
    then show ?thesis by simp
  next
    case (Inr r)
    show ?thesis
    proof (cases r)
      case None
      with Inr Cons show ?thesis by simp
    next
      case (Some t)
      with Inr have fb: "findById cast t_id tid ts = Inr (Some t)" by simp
      from findById_Some [OF fb]
      have ct: "cast tid = Some (t_id t)" and f: "find (\<lambda>x. t_id x = t_id t) ts = Some t"
        by simp_all
      from f have "t \<in> set ts" using find_mem by fastforce
      moreover from ct Cons.prems(1) have "t_id t \<in> L" by simp
      ultimately have same: "t\<lparr>assignedUser := u_id u, assignedUserName := u_name u\<rparr> = t"
        using Cons.prems(2) by simp
      have "save_task t ts = ts"
        unfolding save_task_def using f by (intro updateOne_id) simp
      with fb same Cons show ?thesis by simp
    qed
  qed
qed

lemma assign_new_writes:
  "\<forall>tid \<in> set pts. \<forall>c. cast tid = Some c \<longrightarrow> c \<in> L \<Longrightarrow>
   list_all2 (\<lambda>t t'. t' = t
      \<or> t_id t \<in> L \<and> t' = t\<lparr>assignedUser := u_id u, assignedUserName := u_name u\<rparr>) ts0 ts \<Longrightarrow>
   list_all2 (\<lambda>t t'. t' = t
      \<or> t_id t \<in> L \<and> t' = t\<lparr>assignedUser := u_id u, assignedUserName := u_name u\<rparr>) ts0
     (snd (assign_new cast u pts ts))"
proof (induction pts arbitrary: ts)
  case Nil
  then show ?case by simp
next
  case (Cons tid rest)
  let ?R = "\<lambda>t t'. t' = t
      \<or> t_id t \<in> L \<and> t' = t\<lparr>assignedUser := u_id u, assignedUserName := u_name u\<rparr>"
  from Cons.prems(1)
  have rest: "\<forall>tid \<in> set rest. \<forall>c. cast tid = Some c \<longrightarrow> c \<in> L" by simp
  show ?case
  proof (cases "findById cast t_id tid ts")
    case (Inl e)
    with Cons.prems show ?thesis by simp
  next
    case (Inr r)
    show ?thesis
    proof (cases r)
      case None
      with Inr Cons.IH [OF rest Cons.prems(2)] show ?thesis by simp
    next
      case (Some t)
      with Inr have fb: "findById cast t_id tid ts = Inr (Some t)" by simp
      from findById_Some [OF fb]
      have ct: "cast tid = Some (t_id t)" and f: "find (\<lambda>x. t_id x = t_id t) ts = Some t"
        by simp_all
      from ct Cons.prems(1) have inL: "t_id t \<in> L" by simp
      have st: "save_task (t\<lparr>assignedUser := u_id u, assignedUserName := u_name u\<rparr>) ts
          = updateOne (\<lambda>x. t_id x = t_id t)
              (\<lambda>x. x\<lparr>assignedUser := u_id u, assignedUserName := u_name u\<rparr>) ts"
        using updateOne_first [OF f,
            of "\<lambda>x. x\<lparr>assignedUser := u_id u, assignedUserName := u_name u\<rparr>"]
        by (simp add: save_task_def)
      have "list_all2 ?R ts0
          (updateOne (\<lambda>x. t_id x = t_id t)
              (\<lambda>x. x\<lparr>assignedUser := u_id u, assignedUserName := u_name u\<rparr>) ts)"
        using Cons.prems(2)
      proof (rule list_all2_updateOne)
        fix x y
        assume "?R x y" and "t_id y = t_id t"
        with inL
        show "?R x (y\<lparr>assignedUser := u_id u, assignedUserName := u_name u\<rparr>)"
          by auto
      qed
      with st have "list_all2 ?R ts0
          (save_task (t\<lparr>assignedUser := u_id u, assignedUserName := u_name u\<rparr>) ts)"
        by simp
      from Cons.IH [OF rest this] fb show ?thesis by simp
    qed
  qed
qed

lemma assign_new_exact:
  "\<forall>tid \<in> set pts. cast tid \<noteq> None \<Longrightarrow> distinct (map t_id ts) \<Longrightarrow>
   assign_new cast u pts ts
     = (None, map (\<lambda>t. if t_id t \<in> set (List.map_filter cast pts)
                        then t\<lparr>assignedUser := u_id u, assignedUserName := u_name u\<rparr>
                        else t) ts)"
proof (induction pts arbitrary: ts)
  case Nil
  then show ?case by (simp add: List.map_filter_simps)
next
  case (Cons tid rest)
  let ?w = "\<lambda>x. x\<lparr>assignedUser := u_id u, assignedUserName := u_name u\<rparr>"
  from Cons.prems(1) obtain c where c: "cast tid = Some c" by auto
  from Cons.prems(1) have rest: "\<forall>tid \<in> set rest. cast tid \<noteq> None" by simp
  have L: "set (List.map_filter cast (tid # rest)) = insert c (set (List.map_filter cast rest))"
    using c by (simp add: List.map_filter_simps)
  show ?case
  proof (cases "find (\<lambda>x. t_id x = c) ts")
    case None
    then have "\<forall>x \<in> set ts. t_id x \<noteq> c" by (simp add: find_None_iff)
    then have "map (\<lambda>t. if t_id t \<in> insert c (set (List.map_filter cast rest)) then ?w t else t) ts
        = map (\<lambda>t. if t_id t \<in> set (List.map_filter cast rest) then ?w t else t) ts"
      by (intro map_cong) auto
    with None c Cons.IH [OF rest Cons.prems(2)] L show ?thesis
      by (simp add: findById_def)
  next
    case (Some t)
    then have ti: "t_id t = c" by (rule find_ident)
    let ?ts1 = "map (\<lambda>x. if t_id x = c then ?w x else x) ts"
    have st: "save_task (?w t) ts = ?ts1"
      using updateOne_first [OF Some, of ?w] updateOne_distinct [OF Cons.prems(2), of ?w c] ti
      by (simp add: save_task_def)
    have ids: "map t_id ?ts1 = map t_id ts" by (induction ts) auto
    have d1: "distinct (map t_id ?ts1)" unfolding ids by (rule Cons.prems(2))
    have "map (\<lambda>t. if t_id t \<in> set (List.map_filter cast rest) then ?w t else t) ?ts1
        = map (\<lambda>t. if t_id t \<in> insert c (set (List.map_filter cast rest)) then ?w t else t) ts"
      by (induction ts) auto
    with Some c st Cons.IH [OF rest d1] L show ?thesis
      by (simp add: findById_def)
  qed
qed

lemma put_user_tasks:
  assumes "isValid i" "cast i = Some c" "userById c s = Some u"
    "ub_pendingTasks body = Some (pendingTasks u)"
  shows "tasks (snd (put_user isValid cast i body s))
           = snd (assign_new cast u (pendingTasks u) (tasks s))"
    and "status (fst (put_user isValid cast i body s))
           = (if fst (assign_new cast u (pendingTasks u) (tasks s)) = None then 200 else 500)"
    and "u_id u = c"
proof -
  from assms(3) have f: "find (\<lambda>d. u_id d = c) (users s) = Some u"
    by (simp add: userById_def)
  then show "u_id u = c" by (rule find_ident)
  show "tasks (snd (put_user isValid cast i body s))
           = snd (assign_new cast u (pendingTasks u) (tasks s))"
    using assms(1,2,4) f
    by (cases "assign_new cast u (pendingTasks u) (tasks s)")
       (auto simp: put_user_def findById_def sync_pendingTasks_def unassign_removed_subset
          Let_def split: option.splits)
  show "status (fst (put_user isValid cast i body s))
           = (if fst (assign_new cast u (pendingTasks u) (tasks s)) = None then 200 else 500)"
    using assms(1,2,4) f
    by (cases "assign_new cast u (pendingTasks u) (tasks s)")
       (auto simp: put_user_def findById_def sync_pendingTasks_def unassign_removed_subset
          Let_def sendOK_def sendError_def split: option.splits)
qed

text \<open>
  The claim C8 as it is worded fails in a store that the handlers themselves produce.
  ``Fix bug'' is Ann's on both sides; PUT /api/users/:id renames her to Anna, which does
  not touch the task; a second PUT with her own \<^verbatim>\<open>pendingTasks\<close>, unchanged, then
  rewrites the \<^verbatim>\<open>assignedUserName\<close> of the task from Ann to Anna.
\<close>

theorem put_user_same_pending_counterexample:
  "userById annId renamedDb = Some (ann\<lparr>u_name := ''Anna'', pendingTasks := [fixId]\<rparr>)
   \<and> ub_pendingTasks samePendingBody = Some [fixId]
   \<and> taskById fixId renamedDb = Some fixBug
   \<and> assignedUserName fixBug = ''Ann''
   \<and> taskById fixId (snd (put_user hex24 cast24 annId samePendingBody renamedDb))
       = Some (fixBug\<lparr>assignedUserName := ''Anna''\<rparr>)
   \<and> assignedUserName
        (the (taskById fixId (snd (put_user hex24 cast24 annId samePendingBody renamedDb))))
       \<noteq> assignedUserName (the (taskById fixId renamedDb))"
proof -
  have r: "renamedDb
      = \<lparr>users = [ann\<lparr>u_name := ''Anna'', pendingTasks := [fixId]\<rparr>, bob], tasks = [fixBug]\<rparr>"
    by (simp add: renamedDb_def put_user_def findById_def hex24_ids cast24_ids annDb_def
        renameBody_def noUserBody_def assign_user_def save_user_def sendOK_def ann_def Let_def)
  show ?thesis
    by (simp add: r put_user_def findById_def findByIdAndUpdate_def hex24_ids cast24_ids
        ids_differ taskById_def userById_def samePendingBody_def noUserBody_def
        sync_pendingTasks_def assign_user_def save_user_def save_task_def sendOK_def ann_def
        bob_def fixBug_def Let_def)
qed

text \<open>
  C8, as the code has it. PUT /api/users/:id for an existing user \<open>u\<close> with a body whose
  \<^verbatim>\<open>pendingTasks\<close> are the user's own list. The tasks after the request are the tasks
  before it, one for one and in the same order, each either as it was or, when its id is
  the id of an entry of the list, with \<^verbatim>\<open>assignedUser\<close> set to the id of \<open>u\<close> and
  \<^verbatim>\<open>assignedUserName\<close> to the stored name of \<open>u\<close>: no task is unassigned, added or
  removed. When every task whose id is that of an entry carries that id and that name
  already, the tasks after the request are the tasks before it. When the store can cast
  every entry and the ids of the tasks are distinct, the request succeeds and rewrites
  exactly the tasks whose id is that of an entry.
\<close>

theorem put_user_same_pending:
  assumes i: "isValid i" "cast i = Some c"
    and u: "userById c s = Some u"
    and same: "ub_pendingTasks body = Some (pendingTasks u)"
  shows "list_all2
           (\<lambda>t t'. t' = t
              \<or> t_id t \<in> set (List.map_filter cast (pendingTasks u))
                \<and> t' = t\<lparr>assignedUser := c, assignedUserName := u_name u\<rparr>)
           (tasks s) (tasks (snd (put_user isValid cast i body s)))
       \<and> ((\<forall>t \<in> set (tasks s). t_id t \<in> set (List.map_filter cast (pendingTasks u))
             \<longrightarrow> assignedUser t = c \<and> assignedUserName t = u_name u)
          \<longrightarrow> tasks (snd (put_user isValid cast i body s)) = tasks s)
       \<and> ((\<forall>tid \<in> set (pendingTasks u). cast tid \<noteq> None) \<and> distinct (map t_id (tasks s))
          \<longrightarrow> status (fst (put_user isValid cast i body s)) = 200
            \<and> tasks (snd (put_user isValid cast i body s))
                = map (\<lambda>t. if t_id t \<in> set (List.map_filter cast (pendingTasks u))
                           then t\<lparr>assignedUser := c, assignedUserName := u_name u\<rparr>
                           else t) (tasks s))"
proof -
  note run = put_user_tasks [where isValid = isValid and cast = cast and i = i, OF i u same]
  let ?L = "set (List.map_filter cast (pendingTasks u))"
  have inL: "\<forall>tid \<in> set (pendingTasks u). \<forall>c. cast tid = Some c \<longrightarrow> c \<in> ?L"
    by (auto simp: mem_map_filter)
  have refl: "list_all2
           (\<lambda>t t'. t' = t
              \<or> t_id t \<in> ?L \<and> t' = t\<lparr>assignedUser := u_id u, assignedUserName := u_name u\<rparr>)
           (tasks s) (tasks s)"
    by (simp add: list_all2_same)
  have a: "list_all2
           (\<lambda>t t'. t' = t
              \<or> t_id t \<in> ?L \<and> t' = t\<lparr>assignedUser := c, assignedUserName := u_name u\<rparr>)
           (tasks s) (tasks (snd (put_user isValid cast i body s)))"
    using assign_new_writes [OF inL refl] run(1,3) by simp
  have b: "tasks (snd (put_user isValid cast i body s)) = tasks s"
    if "\<forall>t \<in> set (tasks s). t_id t \<in> ?L \<longrightarrow> assignedUser t = c \<and> assignedUserName t = u_name u"
    using that run(1,3) assign_new_noop [OF inL, of "tasks s" u] by simp
  have c: "status (fst (put_user isValid cast i body s)) = 200
            \<and> tasks (snd (put_user isValid cast i body s))
                = map (\<lambda>t. if t_id t \<in> ?L
                           then t\<lparr>assignedUser := c, assignedUserName := u_name u\<rparr>
                           else t) (tasks s)"
    if "\<forall>tid \<in> set (pendingTasks u). cast tid \<noteq> None" "distinct (map t_id (tasks s))"
    using run assign_new_exact [OF that, of u] by simp
  from a b c show ?thesis by blast
qed

theorem put_user_same_pending_witness:
  "hex24 annId \<and> cast24 annId = Some annId
   \<and> userById annId annDb = Some (ann\<lparr>pendingTasks := [fixId]\<rparr>)
   \<and> ub_pendingTasks samePendingBody = Some (pendingTasks (ann\<lparr>pendingTasks := [fixId]\<rparr>))
   \<and> tasks annDb = [fixBug] \<and> assignedUser fixBug = annId
   \<and> assignedUserName fixBug = u_name (ann\<lparr>pendingTasks := [fixId]\<rparr>)
   \<and> tasks (snd (put_user hex24 cast24 annId samePendingBody annDb)) = tasks annDb
   \<and> status (fst (put_user hex24 cast24 annId samePendingBody annDb)) = 200"
proof -
  have h1: "hex24 annId" "cast24 annId = Some annId"
    by (rule hex24_ids, rule cast24_ids)
  have h3: "ub_pendingTasks samePendingBody = Some (pendingTasks (ann\<lparr>pendingTasks := [fixId]\<rparr>))"
    by (simp add: samePendingBody_def)
  have h4: "\<forall>t \<in> set (tasks annDb).
         t_id t \<in> set (List.map_filter cast24 (pendingTasks (ann\<lparr>pendingTasks := [fixId]\<rparr>)))
         \<longrightarrow> assignedUser t = annId
             \<and> assignedUserName t = u_name (ann\<lparr>pendingTasks := [fixId]\<rparr>)"
    by (simp add: annDb_def fixBug_def ann_def)
  have h5: "tasks annDb = [fixBug]" "assignedUser fixBug = annId"
    "assignedUserName fixBug = u_name (ann\<lparr>pendingTasks := [fixId]\<rparr>)"
    by (simp_all add: annDb_def fixBug_def ann_def)
  have h6: "(\<forall>tid \<in> set (pendingTasks (ann\<lparr>pendingTasks := [fixId]\<rparr>)). cast24 tid \<noteq> None)
      \<and> distinct (map t_id (tasks annDb))"
    by (simp add: cast24_ids annDb_def)
  from put_user_same_pending [where isValid = hex24 and cast = cast24 and i = annId,
      OF h1 annDb_lookups(5) h3] h1 h3 h4 h5 h6 annDb_lookups(5)
  show ?thesis by blast
qed

section \<open>Listing: the limit\<close>

text \<open>
  What the two handlers compute, for every \<^verbatim>\<open>parseInt\<close>. The limit of GET /api/tasks
  is \<^verbatim>\<open>NaN\<close> or an integer from 0 to 1000, and it is 100 for a request without a
  limit parameter; GET /api/users puts no limit on the query of such a request and hands
  a positive limit to the store as it is.
\<close>

lemma tasks_limitNum_range:
  "tasks_limitNum parseInt l = NaN
   \<or> (\<exists>n. tasks_limitNum parseInt l = Num n \<and> 0 \<le> n \<and> n \<le> 1000)"
  by (simp add: tasks_limitNum_def math_min_def math_max_def split: js_number.splits)

lemma tasks_limitNum_default:
  "parseInt ''100'' = Num 100 \<Longrightarrow> tasks_limitNum parseInt None = Num 100"
  by (simp add: tasks_limitNum_def orElse_def truthy_def math_min_def math_max_def)

lemma users_query_no_limit:
  "lp_count p \<noteq> Some ''true'' \<Longrightarrow> lp_limit p = None \<Longrightarrow>
   q_limit (users_query parseInt p) = None"
  by (simp add: users_query_def users_limitNum_def truthy_def positive_def)

lemma users_query_no_clamp:
  "lp_count p \<noteq> Some ''true'' \<Longrightarrow> lp_limit p = Some l \<Longrightarrow> l \<noteq> '''' \<Longrightarrow>
   parseInt l = Num n \<Longrightarrow> 0 < n \<Longrightarrow> q_limit (users_query parseInt p) = Some (Num n)"
  by (simp add: users_query_def users_limitNum_def truthy_def positive_def math_max_def)

text \<open>
  A limit of 0 is what the handler of GET /api/tasks computes from the text 0 and from
  every negative number; the store then returns all the documents.
\<close>

lemma tasks_limit_not_positive:
  "parseInt l = Num n \<Longrightarrow> n \<le> 0 \<Longrightarrow> l \<noteq> '''' \<Longrightarrow> tasks_limitNum parseInt (Some l) = Num 0"
  by (simp add: tasks_limitNum_def orElse_def truthy_def math_min_def math_max_def)

lemma found_limit_zero: "found (Find (Num 0) (Some (Num 0))) docs = Some docs"
  by simp

lemma hexDigit_inj: "d < 16 \<Longrightarrow> e < 16 \<Longrightarrow> hexDigit d = hexDigit e \<Longrightarrow> d = e"
  unfolding hexDigit_def by (subst (asm) nth_eq_iff_index_eq) simp_all

lemma hexId_digits:
  "hexId k = hexId m \<Longrightarrow>
   hexDigit (k div 256 mod 16) = hexDigit (m div 256 mod 16)
   \<and> hexDigit (k div 16 mod 16) = hexDigit (m div 16 mod 16)
   \<and> hexDigit (k mod 16) = hexDigit (m mod 16)"
  unfolding hexId_def by (simp only: same_append_eq list.inject)

lemma digits_eq:
  fixes k m :: nat
  assumes "k < 4096" "m < 4096"
    and d1: "k div 256 mod 16 = m div 256 mod 16" and d2: "k div 16 mod 16 = m div 16 mod 16"
    and d3: "k mod 16 = m mod 16"
  shows "k = m"
proof -
  have k: "k div 16 div 16 < 16" "m div 16 div 16 < 16" using assms(1,2) by auto
  have "k div 16 div 16 = m div 16 div 16"
    using d1 k by (simp add: div_mult2_eq [symmetric])
  moreover have "k div 16 = 16 * (k div 16 div 16) + k div 16 mod 16"
    "m div 16 = 16 * (m div 16 div 16) + m div 16 mod 16"
    by simp_all
  ultimately have "k div 16 = m div 16" using d2 by simp
  moreover have "k = 16 * (k div 16) + k mod 16" "m = 16 * (m div 16) + m mod 16"
    by simp_all
  ultimately show ?thesis using d3 by simp
qed

lemma hexId_inj:
  assumes "k < 4096" "m < 4096" "hexId k = hexId m"
  shows "k = m"
proof -
  from hexId_digits [OF assms(3)]
  have e1: "hexDigit (k div 256 mod 16) = hexDigit (m div 256 mod 16)"
    and e2: "hexDigit (k div 16 mod 16) = hexDigit (m div 16 mod 16)"
    and e3: "hexDigit (k mod 16) = hexDigit (m mod 16)"
    by blast+
  have d1: "k div 256 mod 16 = m div 256 mod 16"
    by (rule hexDigit_inj [OF _ _ e1]) simp_all
  have d2: "k div 16 mod 16 = m div 16 mod 16"
    by (rule hexDigit_inj [OF _ _ e2]) simp_all
  have d3: "k mod 16 = m mod 16"
    by (rule hexDigit_inj [OF _ _ e3]) simp_all
  from assms(1,2) d1 d2 d3 show ?thesis by (rule digits_eq)
qed

text \<open>The store of 1001 tasks is well formed: the ids of its tasks are distinct.\<close>

lemma manyDb_ids: "distinct (map t_id (tasks manyDb))" "length (tasks manyDb) = 1001"
proof -
  have inj: "inj_on hexId (set [0..<1001])"
  proof (rule inj_onI)
    fix k m :: nat
    assume a: "k \<in> set [0..<1001]" "m \<in> set [0..<1001]" and e: "hexId k = hexId m"
    from a have "k < 4096" "m < 4096" by (simp_all del: upt_rec_numeral)
    then show "k = m" using e by (rule hexId_inj)
  qed
  have ids: "map t_id (tasks manyDb) = map hexId [0..<1001]"
    unfolding manyDb_def by (simp add: taskNo_def comp_def del: upt_rec_numeral)
  have "distinct (map hexId [0..<1001])"
    using inj distinct_upt [of 0 1001] by (simp only: distinct_map simp_thms)
  then show "distinct (map t_id (tasks manyDb))" by (simp only: ids)
  show "length (tasks manyDb) = 1001"
    unfolding manyDb_def by (simp del: upt_rec_numeral)
qed

text \<open>
  C9 on the code. GET /api/tasks with the limit parameter 0, on a store of 1001 tasks:
  the limit of the query is 0, which is no limit to the store, and the request returns
  all 1001 tasks.
\<close>

theorem list_tasks_limit_zero_returns_all:
  "lp_limit zeroLimit = Some ''0''
   \<and> tasks_query parse3 zeroLimit = Find (Num 0) (Some (Num 0))
   \<and> found (tasks_query parse3 zeroLimit) (tasks manyDb) = Some (tasks manyDb)
   \<and> length (tasks manyDb) = 1001"
proof -
  have q: "tasks_query parse3 zeroLimit = Find (Num 0) (Some (Num 0))"
    by (simp add: tasks_query_def tasks_limitNum_def skipNum_def zeroLimit_def noParams_def
        parse3_def orElse_def truthy_def math_min_def math_max_def)
  show ?thesis
    by (simp add: q manyDb_ids) (simp add: zeroLimit_def)
qed

text \<open>
  The limits at two requests: a limit of 5000 is clamped for tasks only, and a request
  without a limit has the limit 100 for tasks and none for users.
\<close>

lemma list_limits_example:
  "q_limit (tasks_query parse3 bigLimit) = Some (Num 1000)
   \<and> q_limit (users_query parse3 bigLimit) = Some (Num 5000)
   \<and> q_limit (tasks_query parse3 noParams) = Some (Num 100)
   \<and> q_limit (users_query parse3 noParams) = None"
  by (simp add: tasks_query_def users_query_def tasks_limitNum_def users_limitNum_def
      bigLimit_def noParams_def parse3_def orElse_def truthy_def math_min_def math_max_def
      positive_def)

end
